theory Spec2Isabelle
  imports Main "HOL-Library.AList"
begin

section \<open>The edit session of pgsqltoolsservice: data model\<close>

text \<open>
  The development embeds \<^verbatim>\<open>pgsqltoolsservice/edit_data/data_editor_session.py\<close>.
  Python exceptions are values of the type \<open>error\<close>; a method that mutates the session
  returns the session it leaves behind together with its outcome, so the state reached
  when an exception is raised stays visible. Only subclasses of \<^verbatim>\<open>Exception\<close> are
  modelled, which is what the handler of \<^verbatim>\<open>on_query_execution_complete\<close> catches.
\<close>

datatype error =
    Exception "string option"   \<comment> \<open>\<^verbatim>\<open>raise Exception(message)\<close>; the message may be \<^verbatim>\<open>None\<close>\<close>
  | UnboundLocalError           \<comment> \<open>a local variable read before any assignment\<close>
  | AttributeError              \<comment> \<open>an attribute read on \<^verbatim>\<open>None\<close>\<close>
  | IndexError                  \<comment> \<open>a list indexed out of range\<close>
  | InterfaceError              \<comment> \<open>psycopg2: the connection is closed\<close>
  | CollaboratorError string    \<comment> \<open>an exception raised by code outside the session\<close>

text \<open>
  A psycopg2 connection, known here by its attribute \<^verbatim>\<open>closed\<close>: 0 while the connection
  is open, another number once it is closed or broken.
\<close>

datatype connection = Connection (closed: nat)

text \<open>
  Modelled from the spec: the enumeration \<^verbatim>\<open>ExecutionState\<close> is declared outside the
  session source, which names its member \<^verbatim>\<open>EXECUTED\<close> only; the other two members stand
  for a query that has not reached the executed status.
\<close>

datatype ExecutionState = NOT_STARTED | EXECUTING | EXECUTED

record db_column =
  column_name :: string

record db_cell_value =
  display_value :: string

record result_set =
  columns :: "db_column list"
  rows :: "db_cell_value list list"

text \<open>
  Modelled from the spec: the class \<^verbatim>\<open>ResultSet\<close> is not part of the session source; the
  spec describes it as an ordered, addressable sequence of rows that exposes its row count.
\<close>

definition row_count :: "result_set \<Rightarrow> int" where
  "row_count rs = int (length (rows rs))"

record batch =
  batch_result_set :: "result_set option"

record query =
  execution_state :: ExecutionState
  batches :: "batch list"

record DataEditSessionExecutionState =
  query :: "query option"
  message :: "string option"

record edit_column_metadata =
  escaped_name :: string

text \<open>
  Modelled from the spec: \<^verbatim>\<open>EditTableMetadata\<close> is an ordered list of column descriptors
  plus an escaped multipart table name, extended after execution with the column
  descriptors of the result set (kept here in \<open>db_columns\<close>).
\<close>

record edit_table_metadata =
  column_metadata :: "edit_column_metadata list"
  escaped_multipart_name :: string
  db_columns :: "db_column list"

record EditInitializerFilter =
  limit_results :: "int option"

record InitializeEditParams =
  schema_name :: string
  object_name :: string
  object_type :: string
  filters :: EditInitializerFilter

datatype EditCell = EditCell string bool

datatype EditRow = EditRow int "EditCell list"

datatype EditCellResponse = EditCellResponse EditCell bool

text \<open>
  The session keeps its pending edits in a Python \<^verbatim>\<open>dict\<close>. It is an association list
  here, in insertion order, read with \<open>map_of\<close> and written with \<open>AList.update\<close>, so
  that "one entry per key" is a property to prove and not a consequence of the type.
\<close>

text \<open>
  The table metadata is an object that \<^verbatim>\<open>extend\<close> mutates in place while the session and
  the pending-edit entities built from it hold references to it. Such objects live in a
  store, addressed by reference; \<open>table_metadata\<close> holds a reference, as the attribute
  does. The last two fields are no attributes of the session: \<open>metadata_store\<close> is
  the store and \<open>next_ref\<close> the address of the next object created. An address that
  holds no object yet holds \<open>no_metadata\<close>, and nothing refers to it.
\<close>

type_synonym ref = nat

type_synonym metadata_store = "ref \<Rightarrow> edit_table_metadata"

definition no_metadata :: edit_table_metadata where
  "no_metadata = \<lparr>column_metadata = [], escaped_multipart_name = [], db_columns = []\<rparr>"

record 'e DataEditorSession =
  session_cache :: "(int \<times> 'e) list"
  next_row_id :: "int option"
  is_initialized :: bool
  result_set :: "result_set option"
  table_metadata :: "ref option"
  metadata_store :: metadata_store
  next_ref :: ref

definition new_session :: "'e DataEditorSession" where
  "new_session =
     \<lparr>session_cache = [], next_row_id = None, is_initialized = False,
      result_set = None, table_metadata = None,
      metadata_store = (\<lambda>r. no_metadata), next_ref = 0\<rparr>"

text \<open>
  The classes the session calls but does not define are parameters: the metadata factory
  injected into the constructor, \<^verbatim>\<open>EditTableMetadata.extend\<close>, the pending-edit entity
  \<^verbatim>\<open>RowUpdate\<close> with its two methods (\<open>'e\<close> is the type of such an entity) and
  \<^verbatim>\<open>ResultSetSubset.from_result_set\<close>. \<open>extend\<close> mutates the metadata object and may
  raise, so it returns the object as it leaves it together with its outcome, \<open>None\<close>
  when it returns; \<open>set_cell_value\<close> does the same for the entity. The constructor
  of the entity receives the reference the session holds, and the entity reads the
  objects it refers to in the store it is given.
\<close>

record 'e collaborators =
  metadata_factory_get ::
    "connection \<Rightarrow> string \<Rightarrow> string \<Rightarrow> string \<Rightarrow> error + edit_table_metadata"
  metadata_extend ::
    "edit_table_metadata \<Rightarrow> db_column list \<Rightarrow> edit_table_metadata \<times> error option"
  new_RowUpdate :: "int \<Rightarrow> result_set option \<Rightarrow> ref option \<Rightarrow> metadata_store \<Rightarrow> error + 'e"
  set_cell_value ::
    "'e \<Rightarrow> metadata_store \<Rightarrow> int \<Rightarrow> string \<Rightarrow> 'e \<times> (error + EditCellResponse)"
  get_edit_row :: "'e \<Rightarrow> metadata_store \<Rightarrow> db_cell_value list \<Rightarrow> EditRow"
  from_result_set :: "result_set \<Rightarrow> int \<Rightarrow> int \<Rightarrow> db_cell_value list list"

section \<open>The query builder\<close>

text \<open>Python's \<^verbatim>\<open>str\<close> of an integer: decimal digits, with a minus sign when negative.\<close>

function str_nat :: "nat \<Rightarrow> string" where
  "str_nat n =
     (if n < 10 then [''0123456789'' ! n]
      else str_nat (n div 10) @ [''0123456789'' ! (n mod 10)])"
  by pat_completeness auto
termination
  by (relation "measure id") auto

declare str_nat.simps [simp del]

definition str_int :: "int \<Rightarrow> string" where
  "str_int i = (if i < 0 then CHR ''-'' # str_nat (nat (- i)) else str_nat (nat i))"

text \<open>\<^verbatim>\<open>sep.join(parts)\<close> on strings.\<close>

fun join :: "string \<Rightarrow> string list \<Rightarrow> string" where
  "join sep [] = []"
| "join sep [x] = x"
| "join sep (x # y # ys) = x @ sep @ join sep (y # ys)"

text \<open>
  \<^verbatim>\<open>sql.Identifier(name).as_string(connection)\<close> of psycopg2 on an open connection: libpq
  reads the name up to its first NUL character and returns it between double quotes, each
  double quote inside it doubled.
\<close>

definition quote_ident :: "connection \<Rightarrow> string \<Rightarrow> string" where
  "quote_ident conn name =
     CHR 0x22 #
     concat (map (\<lambda>ch. if ch = CHR 0x22 then [ch, ch] else [ch])
                 (takeWhile (\<lambda>ch. ch \<noteq> CHR 0x00) name)) @
     [CHR 0x22]"

text \<open>
  \<^verbatim>\<open>_construct_initialize_query\<close>. The local \<^verbatim>\<open>limit_clause\<close> is assigned only in the
  branch of a positive limit; \<open>None\<close> stands for the unbound local, and reading it
  raises \<^verbatim>\<open>UnboundLocalError\<close> while the arguments of \<^verbatim>\<open>format\<close> are evaluated. The
  template \<^verbatim>\<open>'SELECT {0} FROM {1} {2}'\<close> is filled with the three rendered parts by
  \<^verbatim>\<open>query.as_string(connection)\<close>, which quotes the table identifier in every case and so
  raises \<^verbatim>\<open>InterfaceError\<close> on a closed connection.
\<close>

definition construct_initialize_query ::
  "connection \<Rightarrow> edit_table_metadata \<Rightarrow> EditInitializerFilter \<Rightarrow> error + string" where
  "construct_initialize_query conn metadata f =
     (let column_names = map (\<lambda>column. quote_ident conn (escaped_name column))
                             (column_metadata metadata);
          limit_clause =
            (case limit_results f of
               None \<Rightarrow> None
             | Some n \<Rightarrow> if n > 0 then Some (join '' '' ['' LIMIT'', str_int n]) else None)
      in case limit_clause of
           None \<Rightarrow> Inl UnboundLocalError
         | Some clause \<Rightarrow>
             if closed conn \<noteq> 0 then Inl InterfaceError
             else Inr (''SELECT '' @ join '', '' column_names @ '' FROM '' @
                       quote_ident conn (escaped_multipart_name metadata) @ '' '' @ clause))"

section \<open>The session\<close>

text \<open>
  The caller's callbacks are modelled by what a call of them does: \<open>on_success\<close> is
  \<open>None\<close> when the callback returns and \<open>Some e\<close> when it raises \<open>e\<close>; \<open>on_failure\<close>
  maps the error it receives to such an outcome. Every call is recorded as an event.
\<close>

datatype event = OnSuccess | OnFailure error

text \<open>\<^verbatim>\<open>_validate_query_for_session\<close>.\<close>

definition validate_query_for_session :: "query \<Rightarrow> error + unit" where
  "validate_query_for_session q =
     (if execution_state q \<noteq> EXECUTED then Inl (Exception (Some ''Execution not completed''))
      else Inr ())"

text \<open>
  The body of the \<^verbatim>\<open>try\<close> statement of \<^verbatim>\<open>on_query_execution_complete\<close>, one case per
  statement that can raise: the session as the body leaves it, the callbacks it has
  called, and the exception it ends with, if any. \<^verbatim>\<open>extend\<close> acts on the object the
  session refers to, in the store, whether it returns or raises.
\<close>

definition try_body ::
  "'e collaborators \<Rightarrow> 'e DataEditorSession \<Rightarrow> DataEditSessionExecutionState \<Rightarrow>
   error option \<Rightarrow> 'e DataEditorSession \<times> event list \<times> error option" where
  "try_body c s es on_success =
     (case query es of
        None \<Rightarrow> (s, [], Some (Exception (message es)))
      | Some q \<Rightarrow>
         (case validate_query_for_session q of
            Inl err \<Rightarrow> (s, [], Some err)
          | Inr _ \<Rightarrow>
             (case batches q of
                [] \<Rightarrow> (s, [], Some IndexError)
              | b # _ \<Rightarrow>
                 (let s1 = s\<lparr>result_set := batch_result_set b\<rparr>
                  in case result_set s1 of
                       None \<Rightarrow> (s1, [], Some AttributeError)
                     | Some rs \<Rightarrow>
                        (let s2 = s1\<lparr>next_row_id := Some (row_count rs)\<rparr>;
                             s3 = s2\<lparr>is_initialized := True\<rparr>
                         in case table_metadata s3 of
                              None \<Rightarrow> (s3, [], Some AttributeError)
                            | Some r \<Rightarrow>
                               (case metadata_extend c (metadata_store s3 r) (columns rs) of
                                  (m', Some err) \<Rightarrow>
                                   (s3\<lparr>metadata_store := (metadata_store s3)(r := m')\<rparr>, [],
                                    Some err)
                                | (m', None) \<Rightarrow>
                                   (s3\<lparr>metadata_store := (metadata_store s3)(r := m')\<rparr>,
                                    [OnSuccess], on_success)))))))"

text \<open>
  \<^verbatim>\<open>on_query_execution_complete\<close>: the handler calls \<^verbatim>\<open>on_failure\<close> with whatever the
  body raised; an exception leaves the method only when \<^verbatim>\<open>on_failure\<close> itself raises.
\<close>

definition on_query_execution_complete ::
  "'e collaborators \<Rightarrow> 'e DataEditorSession \<Rightarrow> DataEditSessionExecutionState \<Rightarrow>
   error option \<Rightarrow> (error \<Rightarrow> error option) \<Rightarrow>
   'e DataEditorSession \<times> event list \<times> error option" where
  "on_query_execution_complete c s es on_success on_failure =
     (case try_body c s es on_success of
        (s', evs, None) \<Rightarrow> (s', evs, None)
      | (s', evs, Some err) \<Rightarrow> (s', evs @ [OnFailure err], on_failure err))"

text \<open>
  The query executer is a callable of the caller's. It receives the query text and the
  completion callback and may call that callback (now, or never before it returns) or
  raise; it acts on the session and on the record of the callbacks called so far.
\<close>

type_synonym 'e world = "'e DataEditorSession \<times> event list"

type_synonym 'e completion =
  "DataEditSessionExecutionState \<Rightarrow> 'e world \<Rightarrow> 'e world \<times> error option"

type_synonym 'e executer = "string \<Rightarrow> 'e completion \<Rightarrow> 'e world \<Rightarrow> 'e world \<times> error option"

definition completion_callback ::
  "'e collaborators \<Rightarrow> error option \<Rightarrow> (error \<Rightarrow> error option) \<Rightarrow> 'e completion" where
  "completion_callback c on_success on_failure es w =
     (case w of (s, tr) \<Rightarrow>
        (case on_query_execution_complete c s es on_success on_failure of
           (s', evs, r) \<Rightarrow> ((s', tr @ evs), r)))"

text \<open>
  \<^verbatim>\<open>initialize\<close>. The metadata the factory returns is a new object: it is put in the
  store at the next address, and \<^verbatim>\<open>self.table_metadata\<close> becomes a reference to it.
\<close>

definition initialize ::
  "'e collaborators \<Rightarrow> 'e DataEditorSession \<Rightarrow> InitializeEditParams \<Rightarrow> connection \<Rightarrow>
   'e executer \<Rightarrow> error option \<Rightarrow> (error \<Rightarrow> error option) \<Rightarrow> 'e world \<times> error option" where
  "initialize c s initailize_edit_params conn query_executer on_success on_failure =
     (case metadata_factory_get c conn (schema_name initailize_edit_params)
             (object_name initailize_edit_params) (object_type initailize_edit_params) of
        Inl err \<Rightarrow> ((s, []), Some err)
      | Inr m \<Rightarrow>
         (let s1 = s\<lparr>table_metadata := Some (next_ref s),
                      metadata_store := (metadata_store s)(next_ref s := m),
                      next_ref := Suc (next_ref s)\<rparr>
          in case construct_initialize_query conn m (filters initailize_edit_params) of
               Inl err \<Rightarrow> ((s1, []), Some err)
             | Inr text \<Rightarrow>
                 query_executer text (completion_callback c on_success on_failure) (s1, [])))"

text \<open>
  Two executers: one that calls the completion callback with a given execution state
  before it returns, and one that returns without having called it.
\<close>

definition calling_executer :: "DataEditSessionExecutionState \<Rightarrow> 'e executer" where
  "calling_executer es text callback w = callback es w"

definition deferring_executer :: "'e executer" where
  "deferring_executer text callback w = (w, None)"

text \<open>
  \<^verbatim>\<open>update_cell\<close>. The entity is a mutable object that the cache alone refers to, so what
  \<^verbatim>\<open>set_cell_value\<close> leaves of it is written back under the same key.
\<close>

definition update_cell ::
  "'e collaborators \<Rightarrow> 'e DataEditorSession \<Rightarrow> int \<Rightarrow> int \<Rightarrow> string \<Rightarrow>
   'e DataEditorSession \<times> (error + EditCellResponse)" where
  "update_cell c s row_id column_index new_value =
     (case map_of (session_cache s) row_id of
        None \<Rightarrow>
         (case new_RowUpdate c row_id (result_set s) (table_metadata s) (metadata_store s) of
            Inl err \<Rightarrow> (s, Inl err)
          | Inr edit_row \<Rightarrow>
             (case set_cell_value c edit_row (metadata_store s) column_index new_value of
                (edit_row', result) \<Rightarrow>
                  (s\<lparr>session_cache := AList.update row_id edit_row' (session_cache s)\<rparr>, result)))
      | Some edit_row \<Rightarrow>
         (case set_cell_value c edit_row (metadata_store s) column_index new_value of
            (edit_row', result) \<Rightarrow>
              (s\<lparr>session_cache := AList.update row_id edit_row' (session_cache s)\<rparr>, result)))"

text \<open>
  The loop of \<^verbatim>\<open>get_rows\<close> over \<^verbatim>\<open>enumerate(subset.rows)\<close>: \<open>subset_rows\<close> is the whole
  window, \<open>index\<close> the position of the next row and the last argument the rows still to
  visit. A row with a cached entity is rendered from \<^verbatim>\<open>subset.rows[0]\<close>.
\<close>

fun get_rows_loop ::
  "'e collaborators \<Rightarrow> metadata_store \<Rightarrow> (int \<times> 'e) list \<Rightarrow> int \<Rightarrow> db_cell_value list list \<Rightarrow>
   int \<Rightarrow> db_cell_value list list \<Rightarrow> error + EditRow list" where
  "get_rows_loop c store cache_entries start_index subset_rows index [] = Inr []"
| "get_rows_loop c store cache_entries start_index subset_rows index (row # rest) =
     (let row_id = start_index + index
      in case map_of cache_entries row_id of
           Some cache \<Rightarrow>
            (case subset_rows of
               [] \<Rightarrow> Inl IndexError
             | first # _ \<Rightarrow>
                map_sum id ((#) (get_edit_row c cache store first))
                  (get_rows_loop c store cache_entries start_index subset_rows (index + 1)
                     rest))
         | None \<Rightarrow>
            map_sum id
              ((#) (EditRow row_id (map (\<lambda>cell. EditCell (display_value cell) False) row)))
              (get_rows_loop c store cache_entries start_index subset_rows (index + 1) rest))"

text \<open>\<^verbatim>\<open>get_rows\<close>; \<^verbatim>\<open>ResultSetSubset()\<close> has no rows.\<close>

definition get_rows ::
  "'e collaborators \<Rightarrow> 'e DataEditorSession \<Rightarrow> string \<Rightarrow> int \<Rightarrow> int \<Rightarrow> error + EditRow list" where
  "get_rows c s owner_uri start_index end_index =
     (case result_set s of
        None \<Rightarrow> Inl AttributeError
      | Some rs \<Rightarrow>
         (let subset_rows =
                (if start_index < row_count rs then from_result_set c rs start_index end_index
                 else [])
          in get_rows_loop c (metadata_store s) (session_cache s) start_index subset_rows 0
               subset_rows))"

text \<open>
  What the loop of \<^verbatim>\<open>get_rows\<close> appends for the row \<open>row\<close> with the identifier
  \<open>row_id\<close>, \<open>first\<close> being the first row of the window; it serves to state what the
  loop returns.
\<close>

definition render ::
  "'e collaborators \<Rightarrow> metadata_store \<Rightarrow> (int \<times> 'e) list \<Rightarrow> db_cell_value list \<Rightarrow> int \<Rightarrow>
   db_cell_value list \<Rightarrow> EditRow" where
  "render c store cache_entries first row_id row =
     (case map_of cache_entries row_id of
        Some cache \<Rightarrow> get_edit_row c cache store first
      | None \<Rightarrow> EditRow row_id (map (\<lambda>cell. EditCell (display_value cell) False) row))"

text \<open>
  A history of calls on a session, to speak of every session the methods can produce
  from a new one. \<open>Initialize\<close> carries \<open>Some es\<close> for an executer that calls the
  completion callback with \<open>es\<close> before it returns and \<open>None\<close> for one that returns
  without calling it; the callback is then a later \<open>Complete\<close>.
\<close>

datatype call =
    Initialize InitializeEditParams connection "DataEditSessionExecutionState option"
      "error option" "error \<Rightarrow> error option"
  | Complete DataEditSessionExecutionState "error option" "error \<Rightarrow> error option"
  | Update_cell int int string

fun run_call :: "'e collaborators \<Rightarrow> 'e DataEditorSession \<Rightarrow> call \<Rightarrow> 'e DataEditorSession" where
  "run_call c s (Initialize p conn None on_success on_failure) =
     fst (fst (initialize c s p conn deferring_executer on_success on_failure))"
| "run_call c s (Initialize p conn (Some es) on_success on_failure) =
     fst (fst (initialize c s p conn (calling_executer es) on_success on_failure))"
| "run_call c s (Complete es on_success on_failure) =
     fst (on_query_execution_complete c s es on_success on_failure)"
| "run_call c s (Update_cell row_id column_index new_value) =
     fst (update_cell c s row_id column_index new_value)"

definition run :: "'e collaborators \<Rightarrow> 'e DataEditorSession \<Rightarrow> call list \<Rightarrow> 'e DataEditorSession" where
  "run c s calls = foldl (run_call c) s calls"

definition cache_keys :: "'e DataEditorSession \<Rightarrow> int list" where
  "cache_keys s = map fst (session_cache s)"

definition successes :: "event list \<Rightarrow> nat" where
  "successes evs = length (filter (\<lambda>ev. ev = OnSuccess) evs)"

definition failures :: "event list \<Rightarrow> nat" where
  "failures evs = length (filter (\<lambda>ev. ev \<noteq> OnSuccess) evs)"

section \<open>A concrete set of collaborators\<close>

text \<open>
  Modelled from the spec: the pending-edit entity \<^verbatim>\<open>RowUpdate\<close> is not part of the session
  source. The spec describes it as bound to a row identifier, the session's result set and
  the table metadata, and as holding, per column index, the new display value.
  \<open>setCellValue\<close> checks the column index against the bounds of the metadata, read
  through the reference the entity was built with; \<open>getEditRow\<close> renders the
  original row it is given with the new values laid over it, dirty where a new value is
  shown.
\<close>

record RowUpdate =
  row_update_id :: int
  row_update_result_set :: "result_set option"
  row_update_metadata :: "ref option"
  cell_updates :: "(int \<times> string) list"

definition RowUpdate_init ::
  "int \<Rightarrow> result_set option \<Rightarrow> ref option \<Rightarrow> metadata_store \<Rightarrow> error + RowUpdate" where
  "RowUpdate_init rid rs md store =
     Inr \<lparr>row_update_id = rid, row_update_result_set = rs, row_update_metadata = md,
          cell_updates = []\<rparr>"

definition RowUpdate_set_cell_value ::
  "RowUpdate \<Rightarrow> metadata_store \<Rightarrow> int \<Rightarrow> string \<Rightarrow> RowUpdate \<times> (error + EditCellResponse)" where
  "RowUpdate_set_cell_value e store column_index new_value =
     (case row_update_metadata e of
        None \<Rightarrow> (e, Inl AttributeError)
      | Some r \<Rightarrow>
         if column_index < 0 \<or> int (length (column_metadata (store r))) \<le> column_index
         then (e, Inl IndexError)
         else (e\<lparr>cell_updates := AList.update column_index new_value (cell_updates e)\<rparr>,
               Inr (EditCellResponse (EditCell new_value True) True)))"

definition RowUpdate_get_edit_row ::
  "RowUpdate \<Rightarrow> metadata_store \<Rightarrow> db_cell_value list \<Rightarrow> EditRow" where
  "RowUpdate_get_edit_row e store original_row =
     EditRow (row_update_id e)
       (map (\<lambda>(i, cell). case map_of (cell_updates e) (int i) of
                            Some v \<Rightarrow> EditCell v True
                          | None \<Rightarrow> EditCell (display_value cell) False)
            (enumerate 0 original_row))"

text \<open>
  Modelled from the spec: \<^verbatim>\<open>ResultSetSubset.from_result_set\<close> takes the row window
  \<open>[startIndex, endIndex)\<close> from the result set and clamps the end bound; the bounds are
  read as those of a Python slice.
\<close>

definition slice_bound :: "nat \<Rightarrow> int \<Rightarrow> nat" where
  "slice_bound n i = (if i < 0 then nat (max 0 (int n + i)) else min n (nat i))"

definition subset_from_result_set :: "result_set \<Rightarrow> int \<Rightarrow> int \<Rightarrow> db_cell_value list list" where
  "subset_from_result_set rs start_index end_index =
     (let n = length (rows rs); lo = slice_bound n start_index; hi = slice_bound n end_index
      in take (hi - lo) (drop lo (rows rs)))"

text \<open>
  A metadata factory that knows one table, \<^verbatim>\<open>public.t\<close> with the columns \<^verbatim>\<open>id\<close> and
  \<^verbatim>\<open>name\<close>, and an \<^verbatim>\<open>extend\<close> that refuses a column list of another length than the
  metadata's and leaves the metadata as they were when it does. Neither class is part of
  the session source.
\<close>

definition table_t :: edit_table_metadata where
  "table_t =
     \<lparr>column_metadata = [\<lparr>escaped_name = ''id''\<rparr>, \<lparr>escaped_name = ''name''\<rparr>],
      escaped_multipart_name = ''public.t'', db_columns = []\<rparr>"

definition factory_get ::
  "connection \<Rightarrow> string \<Rightarrow> string \<Rightarrow> string \<Rightarrow> error + edit_table_metadata" where
  "factory_get conn schema object kind =
     (if schema = ''public'' \<and> object = ''t'' then Inr table_t
      else Inl (CollaboratorError ''object not found''))"

definition strict_extend ::
  "edit_table_metadata \<Rightarrow> db_column list \<Rightarrow> edit_table_metadata \<times> error option" where
  "strict_extend md cols =
     (if length cols = length (column_metadata md) then (md\<lparr>db_columns := cols\<rparr>, None)
      else (md, Some (CollaboratorError ''column count mismatch'')))"

definition collab :: "RowUpdate collaborators" where
  "collab =
     \<lparr>metadata_factory_get = factory_get, metadata_extend = strict_extend,
      new_RowUpdate = RowUpdate_init, set_cell_value = RowUpdate_set_cell_value,
      get_edit_row = RowUpdate_get_edit_row, from_result_set = subset_from_result_set\<rparr>"

text \<open>
  A second constructor for the entity, one that reads the row it is bound to and so
  raises where the session holds no result set or the result set has no such row. It
  serves to run \<^verbatim>\<open>update_cell\<close> with a constructor that raises.
\<close>

definition RowUpdate_init_reading ::
  "int \<Rightarrow> result_set option \<Rightarrow> ref option \<Rightarrow> metadata_store \<Rightarrow> error + RowUpdate" where
  "RowUpdate_init_reading rid rs md store =
     (case rs of
        None \<Rightarrow> Inl AttributeError
      | Some result \<Rightarrow>
         if 0 \<le> rid \<and> rid < row_count result then RowUpdate_init rid rs md store
         else Inl IndexError)"

definition collab_reading :: "RowUpdate collaborators" where
  "collab_reading = collab\<lparr>new_RowUpdate := RowUpdate_init_reading\<rparr>"

text \<open>The table of the spec's scenario and a query that has executed on it.\<close>

definition cell :: "string \<Rightarrow> db_cell_value" where
  "cell v = \<lparr>display_value = v\<rparr>"

definition rows_t :: result_set where
  "rows_t =
     \<lparr>columns = [\<lparr>column_name = ''id''\<rparr>, \<lparr>column_name = ''name''\<rparr>],
      rows = [[cell ''1'', cell ''a''], [cell ''2'', cell ''b''], [cell ''3'', cell ''c'']]\<rparr>"

definition executed_t :: DataEditSessionExecutionState where
  "executed_t =
     \<lparr>query = Some \<lparr>execution_state = EXECUTED,
                     batches = [\<lparr>batch_result_set = Some rows_t\<rparr>]\<rparr>,
      message = None\<rparr>"

definition params_t :: "int option \<Rightarrow> InitializeEditParams" where
  "params_t limit =
     \<lparr>schema_name = ''public'', object_name = ''t'', object_type = ''table'',
      filters = \<lparr>limit_results = limit\<rparr>\<rparr>"

text \<open>
  Execution states for the ways a completion can go wrong: the executer reports an error
  and no query, a query that has not executed, an executed query without batches, an
  executed query whose first batch holds no result set, and an executed query whose
  result has one column where the table metadata has two.
\<close>

definition failed_state :: DataEditSessionExecutionState where
  "failed_state = \<lparr>query = None, message = Some ''connection lost''\<rparr>"

definition not_started_state :: DataEditSessionExecutionState where
  "not_started_state =
     \<lparr>query = Some \<lparr>execution_state = NOT_STARTED,
                     batches = [\<lparr>batch_result_set = Some rows_t\<rparr>]\<rparr>,
      message = None\<rparr>"

definition no_batches_state :: DataEditSessionExecutionState where
  "no_batches_state =
     \<lparr>query = Some \<lparr>execution_state = EXECUTED, batches = []\<rparr>, message = None\<rparr>"

definition no_result_state :: DataEditSessionExecutionState where
  "no_result_state =
     \<lparr>query = Some \<lparr>execution_state = EXECUTED, batches = [\<lparr>batch_result_set = None\<rparr>]\<rparr>,
      message = None\<rparr>"

definition rows_one_column :: result_set where
  "rows_one_column =
     \<lparr>columns = [\<lparr>column_name = ''id''\<rparr>], rows = [[cell ''1''], [cell ''2''], [cell ''3'']]\<rparr>"

definition one_column_state :: DataEditSessionExecutionState where
  "one_column_state =
     \<lparr>query = Some \<lparr>execution_state = EXECUTED,
                     batches = [\<lparr>batch_result_set = Some rows_one_column\<rparr>]\<rparr>,
      message = None\<rparr>"

text \<open>
  Two \<^verbatim>\<open>on_failure\<close> callbacks: one that returns, and one that raises the error it is given.
\<close>

definition never_raises :: "error \<Rightarrow> error option" where
  "never_raises err = None"


text \<open>
  The session after \<^verbatim>\<open>initialize\<close> has resolved the metadata of \<^verbatim>\<open>public.t\<close> and before
  the completion has run, and the session after a completion with \<open>executed_t\<close>.
\<close>

definition initializing_session :: "RowUpdate DataEditorSession" where
  "initializing_session =
     \<lparr>session_cache = [], next_row_id = None, is_initialized = False,
      result_set = None, table_metadata = Some 0,
      metadata_store = (\<lambda>r. no_metadata)(0 := table_t), next_ref = 1\<rparr>"

definition ready_session :: "RowUpdate DataEditorSession" where
  "ready_session =
     \<lparr>session_cache = [], next_row_id = Some 3, is_initialized = True,
      result_set = Some rows_t, table_metadata = Some 0,
      metadata_store = (\<lambda>r. no_metadata)(0 := table_t\<lparr>db_columns := columns rows_t\<rparr>),
      next_ref = 1\<rparr>"

section \<open>The query builder: the limit clause\<close>

lemma construct_initialize_query_raises_iff:
  "(construct_initialize_query conn md f = Inl UnboundLocalError) =
     (limit_results f = None \<or> (\<exists>n. limit_results f = Some n \<and> n \<le> 0))"
  by (auto simp: construct_initialize_query_def Let_def split: option.splits)

lemma construct_initialize_query_positive:
  "limit_results f = Some n \<Longrightarrow> 0 < n \<Longrightarrow> closed conn = 0 \<Longrightarrow>
   construct_initialize_query conn md f =
     Inr (''SELECT '' @ join '', '' (map (\<lambda>column. quote_ident conn (escaped_name column))
                                        (column_metadata md)) @
          '' FROM '' @ quote_ident conn (escaped_multipart_name md) @ ''  LIMIT '' @ str_int n)"
  by (simp add: construct_initialize_query_def Let_def)

lemma construct_initialize_query_closed:
  "limit_results f = Some n \<Longrightarrow> 0 < n \<Longrightarrow> closed conn \<noteq> 0 \<Longrightarrow>
   construct_initialize_query conn md f = Inl InterfaceError"
  by (simp add: construct_initialize_query_def Let_def)

lemma str_int_10: "str_int 10 = ''10''"
  by (simp add: str_int_def str_nat.simps)

lemma construct_initialize_query_limit_10:
  "construct_initialize_query (Connection 0) table_t \<lparr>limit_results = Some 10\<rparr> =
     Inr (''SELECT '' @ [CHR 0x22] @ ''id'' @ [CHR 0x22] @ '', '' @ [CHR 0x22] @ ''name'' @
          [CHR 0x22] @ '' FROM '' @ [CHR 0x22] @ ''public.t'' @ [CHR 0x22] @ ''  LIMIT 10'')"
  by (simp add: construct_initialize_query_def Let_def table_t_def quote_ident_def str_int_10)

text \<open>
  Claim C1. The claim asks that the builder return the SELECT statement without a LIMIT
  clause, and not fail, when \<open>limit_results\<close> is \<open>None\<close> or not positive. On the
  table \<^verbatim>\<open>public.t\<close> the builder raises \<^verbatim>\<open>UnboundLocalError\<close> for both a missing limit
  and the limit 0: \<^verbatim>\<open>limit_clause\<close> is assigned in the positive branch only, and read
  in every case.
\<close>

theorem construct_initialize_query_without_limit_raises:
  "construct_initialize_query (Connection 0) table_t \<lparr>limit_results = None\<rparr> =
     Inl UnboundLocalError \<and>
   construct_initialize_query (Connection 0) table_t \<lparr>limit_results = Some 0\<rparr> =
     Inl UnboundLocalError"
  by (simp add: construct_initialize_query_def)

section \<open>Initialization and the completion callback\<close>

lemma try_body_null:
  "query es = None \<Longrightarrow> try_body c s es on_success = (s, [], Some (Exception (message es)))"
  by (simp add: try_body_def)

lemma try_body_not_executed:
  "query es = Some q \<Longrightarrow> execution_state q \<noteq> EXECUTED \<Longrightarrow>
   try_body c s es on_success = (s, [], Some (Exception (Some ''Execution not completed'')))"
  by (simp add: try_body_def validate_query_for_session_def)

lemma try_body_no_batches:
  "query es = Some q \<Longrightarrow> execution_state q = EXECUTED \<Longrightarrow> batches q = [] \<Longrightarrow>
   try_body c s es on_success = (s, [], Some IndexError)"
  by (simp add: try_body_def validate_query_for_session_def)

lemma try_body_no_result_set:
  "query es = Some q \<Longrightarrow> execution_state q = EXECUTED \<Longrightarrow> batches q = b # bs \<Longrightarrow>
   batch_result_set b = None \<Longrightarrow>
   try_body c s es on_success = (s\<lparr>result_set := None\<rparr>, [], Some AttributeError)"
  by (simp add: try_body_def validate_query_for_session_def)

lemma try_body_no_metadata:
  "query es = Some q \<Longrightarrow> execution_state q = EXECUTED \<Longrightarrow> batches q = b # bs \<Longrightarrow>
   batch_result_set b = Some rs \<Longrightarrow> table_metadata s = None \<Longrightarrow>
   try_body c s es on_success =
     (s\<lparr>result_set := Some rs, next_row_id := Some (row_count rs), is_initialized := True\<rparr>,
      [], Some AttributeError)"
  by (simp add: try_body_def validate_query_for_session_def)

lemma try_body_extend_returns:
  "query es = Some q \<Longrightarrow> execution_state q = EXECUTED \<Longrightarrow> batches q = b # bs \<Longrightarrow>
   batch_result_set b = Some rs \<Longrightarrow> table_metadata s = Some r \<Longrightarrow>
   metadata_extend c (metadata_store s r) (columns rs) = (m', None) \<Longrightarrow>
   try_body c s es on_success =
     (s\<lparr>result_set := Some rs, next_row_id := Some (row_count rs), is_initialized := True,
        metadata_store := (metadata_store s)(r := m')\<rparr>, [OnSuccess], on_success)"
  by (simp add: try_body_def validate_query_for_session_def)

lemma try_body_extend_raises:
  "query es = Some q \<Longrightarrow> execution_state q = EXECUTED \<Longrightarrow> batches q = b # bs \<Longrightarrow>
   batch_result_set b = Some rs \<Longrightarrow> table_metadata s = Some r \<Longrightarrow>
   metadata_extend c (metadata_store s r) (columns rs) = (m', Some err) \<Longrightarrow>
   try_body c s es on_success =
     (s\<lparr>result_set := Some rs, next_row_id := Some (row_count rs), is_initialized := True,
        metadata_store := (metadata_store s)(r := m')\<rparr>, [], Some err)"
  by (simp add: try_body_def validate_query_for_session_def)

lemma try_body_events:
  "(\<exists>s' err. try_body c s es on_success = (s', [], Some err)) \<or>
   (\<exists>s'. try_body c s es on_success = (s', [OnSuccess], on_success))"
  by (simp add: try_body_def validate_query_for_session_def Let_def
           split: option.split sum.split list.split prod.split)

lemma on_query_execution_complete_events:
  "(\<exists>s' err. on_query_execution_complete c s es on_success on_failure =
              (s', [OnFailure err], on_failure err)) \<or>
   (\<exists>s'. on_success = None \<and>
         on_query_execution_complete c s es on_success on_failure = (s', [OnSuccess], None)) \<or>
   (\<exists>s' err. on_success = Some err \<and>
         on_query_execution_complete c s es on_success on_failure =
              (s', [OnSuccess, OnFailure err], on_failure err))"
  using try_body_events [of c s es on_success]
  by (cases on_success) (auto simp: on_query_execution_complete_def)

lemma failures_cases:
  "failures [OnFailure err] = 1" "failures [OnSuccess] = 0"
  "failures [OnSuccess, OnFailure err] = 1"
  by (simp_all add: failures_def)

lemma successes_cases:
  "successes [OnFailure err] = 0" "successes [OnSuccess] = 1"
  "successes [OnSuccess, OnFailure err] = 1"
  by (simp_all add: successes_def)

lemma initialize_calling_executer:
  "metadata_factory_get c conn (schema_name p) (object_name p) (object_type p) = Inr m \<Longrightarrow>
   construct_initialize_query conn m (filters p) = Inr text \<Longrightarrow>
   initialize c s p conn (calling_executer es) on_success on_failure =
     (case on_query_execution_complete c
             (s\<lparr>table_metadata := Some (next_ref s),
                metadata_store := (metadata_store s)(next_ref s := m),
                next_ref := Suc (next_ref s)\<rparr>) es on_success on_failure
      of (s', evs, r) \<Rightarrow> ((s', evs), r))"
  by (simp add: initialize_def calling_executer_def completion_callback_def)

lemma initialize_deferring_executer:
  "metadata_factory_get c conn (schema_name p) (object_name p) (object_type p) = Inr m \<Longrightarrow>
   construct_initialize_query conn m (filters p) = Inr text \<Longrightarrow>
   initialize c s p conn deferring_executer on_success on_failure =
     ((s\<lparr>table_metadata := Some (next_ref s),
         metadata_store := (metadata_store s)(next_ref s := m),
         next_ref := Suc (next_ref s)\<rparr>, []), None)"
  by (simp add: initialize_def deferring_executer_def)

lemma factory_get_t: "factory_get conn ''public'' ''t'' kind = Inr table_t"
  by (simp add: factory_get_def)

lemma allocate_t:
  "new_session\<lparr>table_metadata := Some (next_ref new_session),
               metadata_store := (metadata_store new_session)(next_ref new_session := table_t),
               next_ref := Suc (next_ref new_session)\<rparr> = initializing_session"
  by (simp add: new_session_def initializing_session_def)

lemma complete_t_ready:
  "on_query_execution_complete collab initializing_session executed_t None never_raises =
     (ready_session, [OnSuccess], None)"
  by (simp add: on_query_execution_complete_def try_body_def executed_t_def
        validate_query_for_session_def initializing_session_def collab_def
        strict_extend_def rows_t_def table_t_def row_count_def ready_session_def)

lemma factory_and_builder_t:
  "metadata_factory_get collab (Connection 0) (schema_name (params_t (Some 10)))
     (object_name (params_t (Some 10))) (object_type (params_t (Some 10))) = Inr table_t"
  "\<exists>text. construct_initialize_query (Connection 0) table_t
            (filters (params_t (Some 10))) = Inr text"
  by (simp_all add: collab_def params_t_def factory_get_t construct_initialize_query_limit_10)

lemma initialize_t_ready:
  "initialize collab new_session (params_t (Some 10)) (Connection 0)
     (calling_executer executed_t) None never_raises = ((ready_session, [OnSuccess]), None)"
  using factory_and_builder_t complete_t_ready
  by (auto simp: initialize_calling_executer allocate_t)

lemma initialize_t_initializing:
  "initialize collab new_session (params_t (Some 10)) (Connection 0)
     deferring_executer None never_raises = ((initializing_session, []), None)"
  using factory_and_builder_t
  by (auto simp: initialize_deferring_executer allocate_t)

text \<open>
  Claim C4 as stated fails. When \<^verbatim>\<open>table_metadata.extend\<close> raises, \<^verbatim>\<open>on_failure\<close> is called
  once, yet the result set, the next row identifier and the initialized flag have already
  been assigned and stay assigned. The same holds when \<^verbatim>\<open>on_success\<close> raises: the handler
  calls \<^verbatim>\<open>on_failure\<close> on a session that is fully adopted.
\<close>

theorem partial_adoption_counterexample:
  "is_initialized initializing_session = False \<and>
   on_query_execution_complete collab initializing_session one_column_state None never_raises =
     (initializing_session\<lparr>result_set := Some rows_one_column, next_row_id := Some 3,
                            is_initialized := True\<rparr>,
      [OnFailure (CollaboratorError ''column count mismatch'')], None) \<and>
   fst (on_query_execution_complete collab initializing_session executed_t
          (Some (CollaboratorError ''send failed'')) never_raises) = ready_session \<and>
   is_initialized ready_session = True"
  by (simp add: on_query_execution_complete_def try_body_def one_column_state_def executed_t_def
        validate_query_for_session_def initializing_session_def collab_def
        strict_extend_def rows_one_column_def rows_t_def table_t_def row_count_def
        never_raises_def ready_session_def)

text \<open>
  Claim C4, amended. A completion that fails on a null query, on a query that has not
  executed or on a query without batches calls \<^verbatim>\<open>on_failure\<close> exactly once and leaves every
  field of the session as it was. A first batch without a result set sets the result set
  of the session to \<^verbatim>\<open>None\<close> and nothing else, so it leaves a session that holds no result
  set as it was. A completion that fails later is not rolled back: when the session holds
  no table metadata, when \<^verbatim>\<open>extend\<close> raises and when \<^verbatim>\<open>on_success\<close> raises, \<^verbatim>\<open>on_failure\<close>
  is called exactly once on a session whose result set, next row identifier and
  initialized flag have been assigned. Every completion either calls \<^verbatim>\<open>on_success\<close> alone
  or calls \<^verbatim>\<open>on_failure\<close> exactly once.
\<close>

theorem completion_failures:
  "(query es = None \<longrightarrow>
      on_query_execution_complete c s es on_success on_failure =
        (s, [OnFailure (Exception (message es))], on_failure (Exception (message es)))) \<and>
   (query es = Some q \<and> execution_state q \<noteq> EXECUTED \<longrightarrow>
      on_query_execution_complete c s es on_success on_failure =
        (s, [OnFailure (Exception (Some ''Execution not completed''))],
         on_failure (Exception (Some ''Execution not completed'')))) \<and>
   (query es = Some q \<and> execution_state q = EXECUTED \<and> batches q = [] \<longrightarrow>
      on_query_execution_complete c s es on_success on_failure =
        (s, [OnFailure IndexError], on_failure IndexError)) \<and>
   (query es = Some q \<and> execution_state q = EXECUTED \<and> batches q = b # bs \<and>
    batch_result_set b = None \<longrightarrow>
      on_query_execution_complete c s es on_success on_failure =
        (s\<lparr>result_set := None\<rparr>, [OnFailure AttributeError], on_failure AttributeError)) \<and>
   (query es = Some q \<and> execution_state q = EXECUTED \<and> batches q = b # bs \<and>
    batch_result_set b = None \<and> result_set s = None \<longrightarrow>
      on_query_execution_complete c s es on_success on_failure =
        (s, [OnFailure AttributeError], on_failure AttributeError)) \<and>
   (query es = Some q \<and> execution_state q = EXECUTED \<and> batches q = b # bs \<and>
    batch_result_set b = Some rs \<and> table_metadata s = None \<longrightarrow>
      on_query_execution_complete c s es on_success on_failure =
        (s\<lparr>result_set := Some rs, next_row_id := Some (row_count rs), is_initialized := True\<rparr>,
         [OnFailure AttributeError], on_failure AttributeError)) \<and>
   (query es = Some q \<and> execution_state q = EXECUTED \<and> batches q = b # bs \<and>
    batch_result_set b = Some rs \<and> table_metadata s = Some r \<and>
    metadata_extend c (metadata_store s r) (columns rs) = (m', Some err) \<longrightarrow>
      on_query_execution_complete c s es on_success on_failure =
        (s\<lparr>result_set := Some rs, next_row_id := Some (row_count rs), is_initialized := True,
           metadata_store := (metadata_store s)(r := m')\<rparr>,
         [OnFailure err], on_failure err)) \<and>
   (query es = Some q \<and> execution_state q = EXECUTED \<and> batches q = b # bs \<and>
    batch_result_set b = Some rs \<and> table_metadata s = Some r \<and>
    metadata_extend c (metadata_store s r) (columns rs) = (m', None) \<and>
    on_success = Some err \<longrightarrow>
      on_query_execution_complete c s es on_success on_failure =
        (s\<lparr>result_set := Some rs, next_row_id := Some (row_count rs), is_initialized := True,
           metadata_store := (metadata_store s)(r := m')\<rparr>,
         [OnSuccess, OnFailure err], on_failure err)) \<and>
   (fst (snd (on_query_execution_complete c s es on_success on_failure)) = [OnSuccess] \<or>
    failures (fst (snd (on_query_execution_complete c s es on_success on_failure))) = 1)"
proof -
  have once: "fst (snd (on_query_execution_complete c s es on_success on_failure)) = [OnSuccess] \<or>
    failures (fst (snd (on_query_execution_complete c s es on_success on_failure))) = 1"
    using on_query_execution_complete_events [of c s es on_success on_failure]
    by (auto simp: failures_cases)
  have unchanged: "result_set s = None \<Longrightarrow> s\<lparr>result_set := None\<rparr> = s"
    by simp
  show ?thesis
    using once unchanged
    by (simp add: on_query_execution_complete_def try_body_null try_body_not_executed
          try_body_no_batches try_body_no_result_set try_body_no_metadata
          try_body_extend_raises try_body_extend_returns)
qed

theorem completion_failures_witness:
  "on_query_execution_complete collab initializing_session failed_state None never_raises =
     (initializing_session, [OnFailure (Exception (Some ''connection lost''))], None) \<and>
   on_query_execution_complete collab initializing_session not_started_state None never_raises =
     (initializing_session, [OnFailure (Exception (Some ''Execution not completed''))], None) \<and>
   on_query_execution_complete collab initializing_session no_batches_state None never_raises =
     (initializing_session, [OnFailure IndexError], None) \<and>
   on_query_execution_complete collab initializing_session no_result_state None never_raises =
     (initializing_session, [OnFailure AttributeError], None) \<and>
   on_query_execution_complete collab new_session executed_t None never_raises =
     (new_session\<lparr>result_set := Some rows_t, next_row_id := Some 3, is_initialized := True\<rparr>,
      [OnFailure AttributeError], None) \<and>
   on_query_execution_complete collab initializing_session one_column_state None never_raises =
     (initializing_session\<lparr>result_set := Some rows_one_column, next_row_id := Some 3,
                            is_initialized := True\<rparr>,
      [OnFailure (CollaboratorError ''column count mismatch'')], None) \<and>
   on_query_execution_complete collab initializing_session executed_t
     (Some (CollaboratorError ''send failed'')) never_raises =
     (ready_session, [OnSuccess, OnFailure (CollaboratorError ''send failed'')], None)"
proof -
  have null: "on_query_execution_complete collab initializing_session failed_state None
      never_raises =
      (initializing_session, [OnFailure (Exception (Some ''connection lost''))], None)"
    using completion_failures [where es = failed_state and c = collab
        and s = initializing_session and on_success = None and on_failure = never_raises]
    by (simp add: failed_state_def never_raises_def)
  have not_executed: "on_query_execution_complete collab initializing_session not_started_state
      None never_raises =
      (initializing_session, [OnFailure (Exception (Some ''Execution not completed''))], None)"
    using completion_failures [where es = not_started_state and c = collab
        and s = initializing_session and on_success = None and on_failure = never_raises
        and q = "\<lparr>execution_state = NOT_STARTED,
                   batches = [\<lparr>batch_result_set = Some rows_t\<rparr>]\<rparr>"]
    by (simp add: not_started_state_def never_raises_def)
  have no_batches: "on_query_execution_complete collab initializing_session no_batches_state
      None never_raises = (initializing_session, [OnFailure IndexError], None)"
    using completion_failures [where es = no_batches_state and c = collab
        and s = initializing_session and on_success = None and on_failure = never_raises
        and q = "\<lparr>execution_state = EXECUTED, batches = []\<rparr>"]
    by (simp add: no_batches_state_def never_raises_def)
  have no_result: "on_query_execution_complete collab initializing_session no_result_state
      None never_raises = (initializing_session, [OnFailure AttributeError], None)"
    using completion_failures [where es = no_result_state and c = collab
        and s = initializing_session and on_success = None and on_failure = never_raises
        and q = "\<lparr>execution_state = EXECUTED, batches = [\<lparr>batch_result_set = None\<rparr>]\<rparr>"
        and b = "\<lparr>batch_result_set = None\<rparr>" and bs = "[]"]
    by (simp add: no_result_state_def never_raises_def initializing_session_def)
  have rc: "row_count rows_t = 3" "row_count rows_one_column = 3"
    by (simp_all add: row_count_def rows_t_def rows_one_column_def)
  have no_metadata: "on_query_execution_complete collab new_session executed_t None
      never_raises =
      (new_session\<lparr>result_set := Some rows_t, next_row_id := Some 3, is_initialized := True\<rparr>,
       [OnFailure AttributeError], None)"
    using completion_failures [where es = executed_t and c = collab
        and s = new_session and on_success = None and on_failure = never_raises
        and q = "\<lparr>execution_state = EXECUTED, batches = [\<lparr>batch_result_set = Some rows_t\<rparr>]\<rparr>"
        and b = "\<lparr>batch_result_set = Some rows_t\<rparr>" and bs = "[]" and rs = rows_t]
    by (simp add: executed_t_def never_raises_def new_session_def rc)
  have refuses: "metadata_extend collab (metadata_store initializing_session 0)
      (columns rows_one_column) = (table_t, Some (CollaboratorError ''column count mismatch''))"
    by (simp add: collab_def strict_extend_def initializing_session_def table_t_def
          rows_one_column_def)
  have same: "initializing_session\<lparr>result_set := Some rows_one_column, next_row_id := Some 3,
        is_initialized := True,
        metadata_store := (metadata_store initializing_session)(0 := table_t)\<rparr> =
      initializing_session\<lparr>result_set := Some rows_one_column, next_row_id := Some 3,
        is_initialized := True\<rparr>"
    by (simp add: initializing_session_def)
  have extend_raises: "on_query_execution_complete collab initializing_session
      one_column_state None never_raises =
      (initializing_session\<lparr>result_set := Some rows_one_column, next_row_id := Some 3,
                             is_initialized := True\<rparr>,
       [OnFailure (CollaboratorError ''column count mismatch'')], None)"
    using refuses
      completion_failures [where es = one_column_state and c = collab
        and s = initializing_session and on_success = None and on_failure = never_raises
        and q = "\<lparr>execution_state = EXECUTED,
                   batches = [\<lparr>batch_result_set = Some rows_one_column\<rparr>]\<rparr>"
        and b = "\<lparr>batch_result_set = Some rows_one_column\<rparr>" and bs = "[]"
        and rs = rows_one_column and r = 0 and m' = table_t
        and err = "CollaboratorError ''column count mismatch''"]
    by (simp add: one_column_state_def never_raises_def rc same)
       (simp add: initializing_session_def)
  have accepts: "metadata_extend collab (metadata_store initializing_session 0)
      (columns rows_t) = (table_t\<lparr>db_columns := columns rows_t\<rparr>, None)"
    by (simp add: collab_def strict_extend_def initializing_session_def table_t_def rows_t_def)
  have adopted: "initializing_session\<lparr>result_set := Some rows_t, next_row_id := Some 3,
        is_initialized := True,
        metadata_store := (metadata_store initializing_session)
                            (0 := table_t\<lparr>db_columns := columns rows_t\<rparr>)\<rparr> = ready_session"
    by (simp add: initializing_session_def ready_session_def)
  have success_raises: "on_query_execution_complete collab initializing_session executed_t
      (Some (CollaboratorError ''send failed'')) never_raises =
      (ready_session, [OnSuccess, OnFailure (CollaboratorError ''send failed'')], None)"
    using accepts
      completion_failures [where es = executed_t and c = collab
        and s = initializing_session and on_success = "Some (CollaboratorError ''send failed'')"
        and on_failure = never_raises
        and q = "\<lparr>execution_state = EXECUTED, batches = [\<lparr>batch_result_set = Some rows_t\<rparr>]\<rparr>"
        and b = "\<lparr>batch_result_set = Some rows_t\<rparr>" and bs = "[]"
        and rs = rows_t and r = 0 and m' = "table_t\<lparr>db_columns := columns rows_t\<rparr>"
        and err = "CollaboratorError ''send failed''"]
    by (simp add: executed_t_def never_raises_def rc adopted)
       (simp add: initializing_session_def)
  show ?thesis
    by (intro conjI)
       (fact null not_executed no_batches no_result no_metadata extend_raises success_raises)+
qed

text \<open>
  Claim C5 as stated fails: \<^verbatim>\<open>on_success()\<close> is called inside the \<^verbatim>\<open>try\<close> statement, so
  when it raises the handler calls \<^verbatim>\<open>on_failure\<close> as well.
\<close>

theorem both_callbacks_counterexample:
  "on_query_execution_complete collab initializing_session executed_t
     (Some (CollaboratorError ''send failed'')) never_raises =
     (ready_session, [OnSuccess, OnFailure (CollaboratorError ''send failed'')], None)"
  by (simp add: on_query_execution_complete_def try_body_def executed_t_def
        validate_query_for_session_def initializing_session_def collab_def
        strict_extend_def rows_t_def table_t_def row_count_def ready_session_def
        never_raises_def)

text \<open>
  Claim C5, amended. In one completion each callback is called at most once and at least
  one of them is called; both are called only when \<^verbatim>\<open>on_success\<close> itself raised, and then
  \<^verbatim>\<open>on_failure\<close> receives that error; when \<^verbatim>\<open>on_success\<close> returns, exactly one callback
  is called.
\<close>

theorem callbacks_of_one_completion:
  "successes (fst (snd (on_query_execution_complete c s es on_success on_failure))) \<le> 1 \<and>
   failures (fst (snd (on_query_execution_complete c s es on_success on_failure))) \<le> 1 \<and>
   1 \<le> successes (fst (snd (on_query_execution_complete c s es on_success on_failure))) +
        failures (fst (snd (on_query_execution_complete c s es on_success on_failure))) \<and>
   (successes (fst (snd (on_query_execution_complete c s es on_success on_failure))) +
    failures (fst (snd (on_query_execution_complete c s es on_success on_failure))) = 2 \<longrightarrow>
      (\<exists>err. on_success = Some err \<and>
             fst (snd (on_query_execution_complete c s es on_success on_failure)) =
               [OnSuccess, OnFailure err])) \<and>
   (on_success = None \<longrightarrow>
      successes (fst (snd (on_query_execution_complete c s es on_success on_failure))) +
      failures (fst (snd (on_query_execution_complete c s es on_success on_failure))) = 1)"
  using on_query_execution_complete_events [of c s es on_success on_failure]
  by (auto simp: failures_cases successes_cases)

theorem callbacks_of_one_completion_witness:
  "fst (snd (on_query_execution_complete collab initializing_session executed_t
               (Some (CollaboratorError ''send failed'')) never_raises)) =
     [OnSuccess, OnFailure (CollaboratorError ''send failed'')] \<and>
   successes (fst (snd (on_query_execution_complete collab initializing_session executed_t
                          None never_raises))) +
   failures (fst (snd (on_query_execution_complete collab initializing_session executed_t
                         None never_raises))) = 1"
proof -
  have both: "on_query_execution_complete collab initializing_session executed_t
     (Some (CollaboratorError ''send failed'')) never_raises =
     (ready_session, [OnSuccess, OnFailure (CollaboratorError ''send failed'')], None)"
    by (simp add: on_query_execution_complete_def try_body_def executed_t_def
        validate_query_for_session_def initializing_session_def collab_def
        strict_extend_def rows_t_def table_t_def row_count_def ready_session_def
        never_raises_def)
  have two: "successes (fst (snd (on_query_execution_complete collab initializing_session
               executed_t (Some (CollaboratorError ''send failed'')) never_raises))) +
             failures (fst (snd (on_query_execution_complete collab initializing_session
               executed_t (Some (CollaboratorError ''send failed'')) never_raises))) = 2"
    by (simp add: both failures_cases successes_cases)
  show ?thesis
    using two
      callbacks_of_one_completion [of collab initializing_session executed_t
        "Some (CollaboratorError ''send failed'')" never_raises]
      callbacks_of_one_completion [of collab initializing_session executed_t None never_raises]
    by simp
qed






text \<open>
  The entity built before the completion refers to the metadata object that the completion
  extends: after the completion it reads the extended metadata through its reference.
\<close>

lemma entity_reads_extended_metadata:
  "map_of (session_cache
             (fst (on_query_execution_complete collab
                     (fst (update_cell collab initializing_session 0 1 ''B''))
                     executed_t None never_raises))) 0 =
     Some \<lparr>row_update_id = 0, row_update_result_set = None,
           row_update_metadata = Some 0, cell_updates = [(1, ''B'')]\<rparr> \<and>
   metadata_store
     (fst (on_query_execution_complete collab
             (fst (update_cell collab initializing_session 0 1 ''B''))
             executed_t None never_raises)) 0 =
     table_t\<lparr>db_columns := columns rows_t\<rparr>"
  by (simp add: on_query_execution_complete_def try_body_def executed_t_def
        validate_query_for_session_def update_cell_def initializing_session_def collab_def
        RowUpdate_init_def RowUpdate_set_cell_value_def strict_extend_def rows_t_def
        table_t_def)

section \<open>The edit cache and cell updates\<close>

lemma update_absent: "map_of al k = None \<Longrightarrow> AList.update k v al = al @ [(k, v)]"
  by (induction al) (auto split: if_splits)

lemma update_cell_absent:
  "map_of (session_cache s) row_id = None \<Longrightarrow>
   new_RowUpdate c row_id (result_set s) (table_metadata s) (metadata_store s) = Inr e \<Longrightarrow>
   update_cell c s row_id column_index new_value =
     (s\<lparr>session_cache :=
          session_cache s @
          [(row_id, fst (set_cell_value c e (metadata_store s) column_index new_value))]\<rparr>,
      snd (set_cell_value c e (metadata_store s) column_index new_value))"
  by (simp add: update_cell_def update_absent split: prod.split)

lemma update_cell_absent_raises:
  "map_of (session_cache s) row_id = None \<Longrightarrow>
   new_RowUpdate c row_id (result_set s) (table_metadata s) (metadata_store s) = Inl err \<Longrightarrow>
   update_cell c s row_id column_index new_value = (s, Inl err)"
  by (simp add: update_cell_def)

lemma update_cell_present:
  "map_of (session_cache s) row_id = Some e \<Longrightarrow>
   update_cell c s row_id column_index new_value =
     (s\<lparr>session_cache :=
          AList.update row_id (fst (set_cell_value c e (metadata_store s) column_index new_value))
            (session_cache s)\<rparr>,
      snd (set_cell_value c e (metadata_store s) column_index new_value))"
  by (simp add: update_cell_def split: prod.split)

lemma map_of_None_keys: "(map_of al k = None) = (k \<notin> set (map fst al))"
  by (simp add: map_of_eq_None_iff)

lemma update_cell_keys:
  "cache_keys (fst (update_cell c s row_id column_index new_value)) =
     (if row_id \<in> set (cache_keys s) then cache_keys s
      else case new_RowUpdate c row_id (result_set s) (table_metadata s) (metadata_store s) of
             Inl err \<Rightarrow> cache_keys s
           | Inr e \<Rightarrow> cache_keys s @ [row_id])"
proof (cases "map_of (session_cache s) row_id")
  case None
  then have "row_id \<notin> set (cache_keys s)"
    by (simp add: cache_keys_def map_of_None_keys)
  with None show ?thesis
    by (cases "new_RowUpdate c row_id (result_set s) (table_metadata s) (metadata_store s)")
       (simp_all add: update_cell_absent update_cell_absent_raises cache_keys_def)
next
  case (Some e)
  then have "row_id \<in> set (cache_keys s)"
    using map_of_None_keys [of "session_cache s" row_id] by (simp add: cache_keys_def)
  with Some show ?thesis
    by (simp add: update_cell_present cache_keys_def AList.update_keys)
qed

lemma update_cell_distinct:
  "distinct (cache_keys s) \<Longrightarrow>
   distinct (cache_keys (fst (update_cell c s row_id column_index new_value)))"
  by (simp add: update_cell_keys split: sum.split)

lemma update_cell_other_rows:
  "k \<noteq> row_id \<Longrightarrow>
   map_of (session_cache (fst (update_cell c s row_id column_index new_value))) k =
   map_of (session_cache s) k"
  by (simp add: update_cell_def AList.update_conv' split: option.split sum.split prod.split)

lemma update_cell_store:
  "metadata_store (fst (update_cell c s row_id column_index new_value)) = metadata_store s"
  by (simp add: update_cell_def split: option.split sum.split prod.split)

lemma try_body_cache:
  "session_cache (fst (try_body c s es on_success)) = session_cache s"
  by (simp add: try_body_def Let_def split: option.split sum.split list.split prod.split)

lemma on_query_execution_complete_cache:
  "session_cache (fst (on_query_execution_complete c s es on_success on_failure)) =
   session_cache s"
proof (cases "try_body c s es on_success")
  case (fields s' evs r)
  with try_body_cache [of c s es on_success] show ?thesis
    by (cases r) (simp_all add: on_query_execution_complete_def)
qed

lemma completion_callback_cache:
  "session_cache (fst (fst (completion_callback c on_success on_failure es (s, tr)))) =
   session_cache s"
proof (cases "on_query_execution_complete c s es on_success on_failure")
  case (fields s' evs r)
  with on_query_execution_complete_cache [of c s es on_success on_failure] show ?thesis
    by (simp add: completion_callback_def)
qed

lemma run_call_cache:
  "session_cache (run_call c s (Initialize p conn ex on_success on_failure)) = session_cache s"
  "session_cache (run_call c s (Complete es on_success on_failure)) = session_cache s"
proof -
  show "session_cache (run_call c s (Initialize p conn ex on_success on_failure)) =
        session_cache s"
    by (cases ex)
       (simp_all add: initialize_def Let_def completion_callback_cache calling_executer_def
          deferring_executer_def split: sum.split)
  show "session_cache (run_call c s (Complete es on_success on_failure)) = session_cache s"
    by (simp add: on_query_execution_complete_cache)
qed

lemma run_call_distinct:
  assumes "distinct (cache_keys s)"
  shows "distinct (cache_keys (run_call c s x))"
proof (cases x)
  case (Initialize p conn ex on_success on_failure)
  with assms show ?thesis by (simp add: cache_keys_def run_call_cache del: run_call.simps)
next
  case (Complete es on_success on_failure)
  with assms show ?thesis by (simp add: cache_keys_def run_call_cache del: run_call.simps)
next
  case (Update_cell row_id column_index new_value)
  with assms show ?thesis by (simp add: update_cell_distinct)
qed

lemma run_distinct:
  "distinct (cache_keys s) \<Longrightarrow> distinct (cache_keys (run c s calls))"
  unfolding run_def
  by (induction calls arbitrary: s) (simp_all add: run_call_distinct)

lemma new_session_keys: "cache_keys new_session = []"
  by (simp add: cache_keys_def new_session_def)

text \<open>
  What a call of \<^verbatim>\<open>update_cell\<close> leaves in the cache for the row it was called for: the
  entity it found or built, as \<^verbatim>\<open>set_cell_value\<close> left it.
\<close>

lemma update_cell_stores:
  assumes "map_of (session_cache s) row_id = Some e \<or>
           map_of (session_cache s) row_id = None \<and>
           new_RowUpdate c row_id (result_set s) (table_metadata s) (metadata_store s) = Inr e"
  shows "update_cell c s row_id column_index new_value =
           (s\<lparr>session_cache :=
                AList.update row_id
                  (fst (set_cell_value c e (metadata_store s) column_index new_value))
                  (session_cache s)\<rparr>,
            snd (set_cell_value c e (metadata_store s) column_index new_value))"
  using assms by (auto simp: update_cell_def split: prod.split)

lemma update_cell_entry:
  assumes "map_of (session_cache s) row_id = Some e \<or>
           map_of (session_cache s) row_id = None \<and>
           new_RowUpdate c row_id (result_set s) (table_metadata s) (metadata_store s) = Inr e"
  shows "map_of (session_cache (fst (update_cell c s row_id column_index new_value))) row_id =
           Some (fst (set_cell_value c e (metadata_store s) column_index new_value))"
    and "row_id \<in> set (cache_keys (fst (update_cell c s row_id column_index new_value)))"
  by (simp_all add: update_cell_stores [OF assms] AList.update_conv' cache_keys_def
        AList.update_keys)

lemma count_distinct:
  "distinct xs \<Longrightarrow> x \<in> set xs \<Longrightarrow> length (filter (\<lambda>k. k = x) xs) = 1"
  by (induction xs) (auto simp: filter_empty_conv)

text \<open>
  Claim C8. Whatever calls are made on a new session, no row identifier occurs twice among
  the keys of the edit cache. Take two calls of \<^verbatim>\<open>update_cell\<close> for the same row, with
  any columns and values, \<open>s1\<close> being the session after the first and \<open>s2\<close> the
  session after the second. Neither call removes a key or touches the entry of another
  row. When the row has an entry \<open>e\<close>, or has none and the constructor returns \<open>e\<close>,
  the first call leaves under the row identifier the entity \<open>e1\<close> that
  \<^verbatim>\<open>set_cell_value\<close> made of \<open>e\<close>; the second call hands \<open>e1\<close> to \<^verbatim>\<open>set_cell_value\<close>,
  stores the outcome \<open>e2\<close> under the same key and adds no key, so the row has exactly one
  entry. When the constructor raises, the call leaves the session as it was.
\<close>

theorem one_cache_entry_per_row:
  assumes "s1 = fst (update_cell c s row_id column1 value1)"
    and "s2 = fst (update_cell c s1 row_id column2 value2)"
    and "e1 = fst (set_cell_value c e (metadata_store s) column1 value1)"
    and "e2 = fst (set_cell_value c e1 (metadata_store s) column2 value2)"
  shows "distinct (cache_keys (run c new_session calls)) \<and>
    (distinct (cache_keys s) \<longrightarrow> distinct (cache_keys s1) \<and> distinct (cache_keys s2)) \<and>
    set (cache_keys s) \<subseteq> set (cache_keys s1) \<and>
    set (cache_keys s1) \<subseteq> set (cache_keys s2) \<and>
    (k \<noteq> row_id \<longrightarrow>
       map_of (session_cache s1) k = map_of (session_cache s) k \<and>
       map_of (session_cache s2) k = map_of (session_cache s) k) \<and>
    (map_of (session_cache s) row_id = None \<and>
     new_RowUpdate c row_id (result_set s) (table_metadata s) (metadata_store s) = Inl err \<longrightarrow>
       update_cell c s row_id column1 value1 = (s, Inl err)) \<and>
    (map_of (session_cache s) row_id = Some e \<or>
     map_of (session_cache s) row_id = None \<and>
     new_RowUpdate c row_id (result_set s) (table_metadata s) (metadata_store s) = Inr e \<longrightarrow>
       map_of (session_cache s1) row_id = Some e1 \<and>
       update_cell c s1 row_id column2 value2 =
         (s1\<lparr>session_cache := AList.update row_id e2 (session_cache s1)\<rparr>,
          snd (set_cell_value c e1 (metadata_store s) column2 value2)) \<and>
       map_of (session_cache s2) row_id = Some e2 \<and>
       cache_keys s2 = cache_keys s1 \<and>
       (distinct (cache_keys s) \<longrightarrow> length (filter (\<lambda>k. k = row_id) (cache_keys s2)) = 1))"
proof -
  have invariant: "distinct (cache_keys (run c new_session calls))"
    by (rule run_distinct) (simp add: new_session_keys)
  have kept: "distinct (cache_keys s) \<Longrightarrow> distinct (cache_keys s1) \<and> distinct (cache_keys s2)"
    by (simp add: assms update_cell_distinct)
  have grows: "set (cache_keys s) \<subseteq> set (cache_keys s1)"
    "set (cache_keys s1) \<subseteq> set (cache_keys s2)"
    by (auto simp: assms update_cell_keys split: sum.split)
  have others: "k \<noteq> row_id \<Longrightarrow>
      map_of (session_cache s1) k = map_of (session_cache s) k \<and>
      map_of (session_cache s2) k = map_of (session_cache s) k"
    by (simp add: assms update_cell_other_rows)
  have raises: "map_of (session_cache s) row_id = None \<and>
      new_RowUpdate c row_id (result_set s) (table_metadata s) (metadata_store s) = Inl err \<Longrightarrow>
      update_cell c s row_id column1 value1 = (s, Inl err)"
    by (simp add: update_cell_absent_raises)
  have same_entry:
    "map_of (session_cache s1) row_id = Some e1 \<and>
     update_cell c s1 row_id column2 value2 =
       (s1\<lparr>session_cache := AList.update row_id e2 (session_cache s1)\<rparr>,
        snd (set_cell_value c e1 (metadata_store s) column2 value2)) \<and>
     map_of (session_cache s2) row_id = Some e2 \<and>
     cache_keys s2 = cache_keys s1 \<and>
     (distinct (cache_keys s) \<longrightarrow> length (filter (\<lambda>k. k = row_id) (cache_keys s2)) = 1)"
    if found: "map_of (session_cache s) row_id = Some e \<or>
      map_of (session_cache s) row_id = None \<and>
      new_RowUpdate c row_id (result_set s) (table_metadata s) (metadata_store s) = Inr e"
  proof -
    have first: "map_of (session_cache s1) row_id = Some e1"
      and member: "row_id \<in> set (cache_keys s1)"
      using update_cell_entry [OF found] by (simp_all add: assms)
    have second: "update_cell c s1 row_id column2 value2 =
        (s1\<lparr>session_cache := AList.update row_id e2 (session_cache s1)\<rparr>,
         snd (set_cell_value c e1 (metadata_store s) column2 value2))"
      using update_cell_present [OF first, of c column2 value2]
      by (simp add: assms update_cell_store)
    have entry: "map_of (session_cache s2) row_id = Some e2"
      using second by (simp add: assms(2) AList.update_conv')
    have keys: "cache_keys s2 = cache_keys s1"
      using member by (simp add: assms(2) update_cell_keys)
    have one: "length (filter (\<lambda>k. k = row_id) (cache_keys s2)) = 1" if "distinct (cache_keys s)"
      using kept [OF that] member keys by (simp add: count_distinct)
    show ?thesis
      using first second entry keys one by blast
  qed
  show ?thesis
    using invariant kept grows others raises same_entry by blast
qed

lemma ready_update_1:
  "update_cell collab ready_session 1 1 ''B'' =
     (ready_session\<lparr>session_cache :=
        [(1, \<lparr>row_update_id = 1, row_update_result_set = result_set ready_session,
               row_update_metadata = table_metadata ready_session,
               cell_updates = [(1, ''B'')]\<rparr>)]\<rparr>,
      Inr (EditCellResponse (EditCell ''B'' True) True))"
  by (simp add: update_cell_def ready_session_def collab_def RowUpdate_init_def
        RowUpdate_set_cell_value_def table_t_def)

lemma ready_new_entity:
  "map_of (session_cache ready_session) row_id = None"
  "new_RowUpdate collab row_id (result_set ready_session) (table_metadata ready_session)
     (metadata_store ready_session) =
   Inr \<lparr>row_update_id = row_id, row_update_result_set = result_set ready_session,
        row_update_metadata = table_metadata ready_session, cell_updates = []\<rparr>"
  by (simp_all add: ready_session_def collab_def RowUpdate_init_def)

lemma ready_set_cell_value:
  "0 \<le> column_index \<Longrightarrow> column_index < 2 \<Longrightarrow>
   set_cell_value collab
     \<lparr>row_update_id = row_id, row_update_result_set = result_set ready_session,
      row_update_metadata = table_metadata ready_session, cell_updates = updates\<rparr>
     (metadata_store ready_session) column_index new_value =
   (\<lparr>row_update_id = row_id, row_update_result_set = result_set ready_session,
     row_update_metadata = table_metadata ready_session,
     cell_updates = AList.update column_index new_value updates\<rparr>,
    Inr (EditCellResponse (EditCell new_value True) True))"
  by (simp add: collab_def RowUpdate_set_cell_value_def ready_session_def table_t_def)

lemma reading_constructor_raises:
  "map_of (session_cache initializing_session) row_id = None"
  "new_RowUpdate collab_reading row_id (result_set initializing_session)
     (table_metadata initializing_session) (metadata_store initializing_session) =
   Inl AttributeError"
  by (simp_all add: initializing_session_def collab_reading_def RowUpdate_init_reading_def)

theorem one_cache_entry_per_row_witness:
  "map_of (session_cache (fst (update_cell collab ready_session 1 1 ''B''))) 1 =
     Some \<lparr>row_update_id = 1, row_update_result_set = result_set ready_session,
           row_update_metadata = table_metadata ready_session,
           cell_updates = [(1, ''B'')]\<rparr> \<and>
   map_of (session_cache (fst (update_cell collab
             (fst (update_cell collab ready_session 1 1 ''B'')) 1 0 ''9''))) 1 =
     Some \<lparr>row_update_id = 1, row_update_result_set = result_set ready_session,
           row_update_metadata = table_metadata ready_session,
           cell_updates = [(1, ''B''), (0, ''9'')]\<rparr> \<and>
   cache_keys (fst (update_cell collab
                      (fst (update_cell collab ready_session 1 1 ''B'')) 1 0 ''9'')) =
     cache_keys (fst (update_cell collab ready_session 1 1 ''B'')) \<and>
   length (filter (\<lambda>k. k = 1)
             (cache_keys (fst (update_cell collab
                (fst (update_cell collab ready_session 1 1 ''B'')) 1 0 ''9'')))) = 1 \<and>
   map_of (session_cache (fst (update_cell collab
             (fst (update_cell collab ready_session 1 1 ''B'')) 1 0 ''9''))) 2 =
     map_of (session_cache ready_session) 2 \<and>
   update_cell collab_reading initializing_session 1 1 ''B'' =
     (initializing_session, Inl AttributeError)"
proof -
  let ?e = "\<lparr>row_update_id = 1, row_update_result_set = result_set ready_session,
             row_update_metadata = table_metadata ready_session, cell_updates = []\<rparr>"
  let ?e1 = "fst (set_cell_value collab ?e (metadata_store ready_session) 1 ''B'')"
  let ?e2 = "fst (set_cell_value collab ?e1 (metadata_store ready_session) 0 ''9'')"
  let ?s1 = "fst (update_cell collab ready_session 1 1 ''B'')"
  let ?s2 = "fst (update_cell collab ?s1 1 0 ''9'')"
  have e1: "?e1 = \<lparr>row_update_id = 1, row_update_result_set = result_set ready_session,
             row_update_metadata = table_metadata ready_session,
             cell_updates = [(1, ''B'')]\<rparr>"
    by (simp add: ready_set_cell_value)
  have e2: "fst (set_cell_value collab
                  \<lparr>row_update_id = 1, row_update_result_set = result_set ready_session,
                   row_update_metadata = table_metadata ready_session,
                   cell_updates = [(1, ''B'')]\<rparr>
                  (metadata_store ready_session) 0 ''9'') =
            \<lparr>row_update_id = 1, row_update_result_set = result_set ready_session,
             row_update_metadata = table_metadata ready_session,
             cell_updates = [(1, ''B''), (0, ''9'')]\<rparr>"
    by (simp add: ready_set_cell_value)
  have distinct: "distinct (cache_keys ready_session)"
    by (simp add: cache_keys_def ready_session_def)
  have other_row: "(2::int) \<noteq> 1"
    by simp
  have two_calls:
    "map_of (session_cache ?s1) 1 = Some ?e1 \<and>
     map_of (session_cache ?s2) 1 = Some ?e2 \<and>
     cache_keys ?s2 = cache_keys ?s1 \<and>
     length (filter (\<lambda>k. k = 1) (cache_keys ?s2)) = 1 \<and>
     map_of (session_cache ?s2) 2 = map_of (session_cache ready_session) 2"
    using ready_new_entity [of 1] distinct other_row
      one_cache_entry_per_row [where c = collab and s = ready_session and row_id = 1
        and ?column1.0 = 1 and ?value1.0 = "''B''" and ?column2.0 = 0 and ?value2.0 = "''9''"
        and e = ?e and ?e1.0 = ?e1 and ?e2.0 = ?e2 and ?s1.0 = ?s1 and ?s2.0 = ?s2
        and k = 2 and calls = "[]", OF refl refl refl refl]
    by blast
  have raises: "update_cell collab_reading initializing_session 1 1 ''B'' =
      (initializing_session, Inl AttributeError)"
    using reading_constructor_raises [of 1]
      one_cache_entry_per_row [where c = collab_reading and s = initializing_session
        and row_id = 1 and ?column1.0 = 1 and ?value1.0 = "''B''" and err = AttributeError,
        OF refl refl refl refl]
    by blast
  show ?thesis
    using two_calls raises unfolding e1 e2 by blast
qed

text \<open>
  Claim C2 as stated fails: on a session that is still initializing, with table metadata
  resolved and no result set yet, \<^verbatim>\<open>update_cell\<close> creates a cache entry and returns the
  response of \<^verbatim>\<open>set_cell_value\<close>.
\<close>

theorem update_cell_before_ready_counterexample:
  "is_initialized initializing_session = False \<and>
   result_set initializing_session = None \<and>
   update_cell collab initializing_session 0 1 ''B'' =
     (initializing_session\<lparr>session_cache :=
        [(0, \<lparr>row_update_id = 0, row_update_result_set = None,
               row_update_metadata = Some 0, cell_updates = [(1, ''B'')]\<rparr>)]\<rparr>,
      Inr (EditCellResponse (EditCell ''B'' True) True))"
  by (simp add: update_cell_def initializing_session_def collab_def
        RowUpdate_init_def RowUpdate_set_cell_value_def table_t_def)

text \<open>
  Claim C2, amended. Neither \<^verbatim>\<open>update_cell\<close> nor \<^verbatim>\<open>get_rows\<close> reads the initialized flag:
  each behaves the same whatever its value. \<^verbatim>\<open>get_rows\<close> fails with \<^verbatim>\<open>AttributeError\<close>
  on every session that holds no result set, because it reads the row count of \<^verbatim>\<open>None\<close>;
  on a session that holds one it returns the empty list for a start index at or beyond the
  row count and the outcome of its loop over the window otherwise.
  \<^verbatim>\<open>update_cell\<close> does on every session what it does on a ready one: it looks the row up;
  when the row has no entry it builds the entity from the result set and the table
  metadata the session holds, be they \<^verbatim>\<open>None\<close>, and leaves the session as it was if the
  constructor raises, or else appends the entity to the cache; it calls
  \<^verbatim>\<open>set_cell_value\<close> on the entity and returns its result.
\<close>

theorem no_readiness_check:
  "update_cell c (s\<lparr>is_initialized := flag\<rparr>) row_id column_index new_value =
     (case update_cell c s row_id column_index new_value of
        (s', r) \<Rightarrow> (s'\<lparr>is_initialized := flag\<rparr>, r)) \<and>
   get_rows c (s\<lparr>is_initialized := flag\<rparr>) owner_uri start_index end_index =
     get_rows c s owner_uri start_index end_index \<and>
   (result_set s = None \<longrightarrow>
      get_rows c s owner_uri start_index end_index = Inl AttributeError) \<and>
   (result_set s = Some rs \<and> row_count rs \<le> start_index \<longrightarrow>
      get_rows c s owner_uri start_index end_index = Inr []) \<and>
   (result_set s = Some rs \<and> start_index < row_count rs \<longrightarrow>
      get_rows c s owner_uri start_index end_index =
        get_rows_loop c (metadata_store s) (session_cache s) start_index
          (from_result_set c rs start_index end_index) 0
          (from_result_set c rs start_index end_index)) \<and>
   (map_of (session_cache s) row_id = None \<and>
    new_RowUpdate c row_id (result_set s) (table_metadata s) (metadata_store s) = Inr e \<longrightarrow>
      update_cell c s row_id column_index new_value =
        (s\<lparr>session_cache :=
             session_cache s @
             [(row_id, fst (set_cell_value c e (metadata_store s) column_index new_value))]\<rparr>,
         snd (set_cell_value c e (metadata_store s) column_index new_value))) \<and>
   (map_of (session_cache s) row_id = None \<and>
    new_RowUpdate c row_id (result_set s) (table_metadata s) (metadata_store s) = Inl err \<longrightarrow>
      update_cell c s row_id column_index new_value = (s, Inl err)) \<and>
   (map_of (session_cache s) row_id = Some e \<longrightarrow>
      update_cell c s row_id column_index new_value =
        (s\<lparr>session_cache :=
             AList.update row_id
               (fst (set_cell_value c e (metadata_store s) column_index new_value))
               (session_cache s)\<rparr>,
         snd (set_cell_value c e (metadata_store s) column_index new_value)))"
proof -
  have flag: "update_cell c (s\<lparr>is_initialized := flag\<rparr>) row_id column_index new_value =
     (case update_cell c s row_id column_index new_value of
        (s', r) \<Rightarrow> (s'\<lparr>is_initialized := flag\<rparr>, r)) \<and>
   get_rows c (s\<lparr>is_initialized := flag\<rparr>) owner_uri start_index end_index =
     get_rows c s owner_uri start_index end_index \<and>
   (result_set s = None \<longrightarrow>
      get_rows c s owner_uri start_index end_index = Inl AttributeError) \<and>
   (result_set s = Some rs \<and> row_count rs \<le> start_index \<longrightarrow>
      get_rows c s owner_uri start_index end_index = Inr []) \<and>
   (result_set s = Some rs \<and> start_index < row_count rs \<longrightarrow>
      get_rows c s owner_uri start_index end_index =
        get_rows_loop c (metadata_store s) (session_cache s) start_index
          (from_result_set c rs start_index end_index) 0
          (from_result_set c rs start_index end_index))"
    by (simp add: update_cell_def get_rows_def Let_def
          split: option.split sum.split prod.split)
  then show ?thesis
    by (simp add: update_cell_absent update_cell_absent_raises update_cell_present)
qed

lemma initializing_new_entity:
  "map_of (session_cache initializing_session) row_id = None"
  "new_RowUpdate collab row_id (result_set initializing_session)
     (table_metadata initializing_session) (metadata_store initializing_session) =
   Inr \<lparr>row_update_id = row_id, row_update_result_set = None,
        row_update_metadata = Some 0, cell_updates = []\<rparr>"
  by (simp_all add: initializing_session_def collab_def RowUpdate_init_def)

lemma initializing_set_cell_value:
  "0 \<le> column_index \<Longrightarrow> column_index < 2 \<Longrightarrow>
   set_cell_value collab
     \<lparr>row_update_id = row_id, row_update_result_set = None,
      row_update_metadata = Some 0, cell_updates = updates\<rparr>
     (metadata_store initializing_session) column_index new_value =
   (\<lparr>row_update_id = row_id, row_update_result_set = None,
     row_update_metadata = Some 0,
     cell_updates = AList.update column_index new_value updates\<rparr>,
    Inr (EditCellResponse (EditCell new_value True) True))"
  by (simp add: collab_def RowUpdate_set_cell_value_def initializing_session_def table_t_def)

theorem no_readiness_check_witness:
  "is_initialized initializing_session = False \<and>
   get_rows collab initializing_session ''uri'' 0 3 = Inl AttributeError \<and>
   update_cell collab initializing_session 0 1 ''B'' =
     (initializing_session\<lparr>session_cache :=
        [(0, \<lparr>row_update_id = 0, row_update_result_set = None,
               row_update_metadata = Some 0, cell_updates = [(1, ''B'')]\<rparr>)]\<rparr>,
      Inr (EditCellResponse (EditCell ''B'' True) True)) \<and>
   update_cell collab
     (initializing_session\<lparr>session_cache :=
        [(0, \<lparr>row_update_id = 0, row_update_result_set = None,
               row_update_metadata = Some 0, cell_updates = [(1, ''B'')]\<rparr>)]\<rparr>) 0 0 ''9'' =
     (initializing_session\<lparr>session_cache :=
        [(0, \<lparr>row_update_id = 0, row_update_result_set = None,
               row_update_metadata = Some 0, cell_updates = [(1, ''B''), (0, ''9'')]\<rparr>)]\<rparr>,
      Inr (EditCellResponse (EditCell ''9'' True) True)) \<and>
   update_cell collab_reading initializing_session 0 1 ''B'' =
     (initializing_session, Inl AttributeError) \<and>
   get_rows collab (ready_session\<lparr>is_initialized := False\<rparr>) ''uri'' 3 5 = Inr [] \<and>
   get_rows collab (ready_session\<lparr>is_initialized := False\<rparr>) ''uri'' 0 3 =
     Inr [EditRow 0 [EditCell ''1'' False, EditCell ''a'' False],
          EditRow 1 [EditCell ''2'' False, EditCell ''b'' False],
          EditRow 2 [EditCell ''3'' False, EditCell ''c'' False]]"
proof -
  let ?e = "\<lparr>row_update_id = 0, row_update_result_set = None,
             row_update_metadata = Some 0, cell_updates = []\<rparr>"
  let ?e1 = "\<lparr>row_update_id = 0, row_update_result_set = None,
              row_update_metadata = Some 0, cell_updates = [(1, ''B'')]\<rparr>"
  let ?s1 = "initializing_session\<lparr>session_cache := [(0, ?e1)]\<rparr>"
  have flag: "is_initialized initializing_session = False"
    and no_result: "result_set initializing_session = None"
    and empty: "session_cache initializing_session = []"
    by (simp_all add: initializing_session_def)
  have rows: "get_rows collab initializing_session ''uri'' 0 3 = Inl AttributeError"
    using no_result
      no_readiness_check [where c = collab and s = initializing_session
        and owner_uri = "''uri''" and start_index = 0 and end_index = 3]
    by blast
  have "update_cell collab initializing_session 0 1 ''B'' =
      (initializing_session\<lparr>session_cache :=
         session_cache initializing_session @
         [(0, fst (set_cell_value collab ?e (metadata_store initializing_session) 1 ''B''))]\<rparr>,
       snd (set_cell_value collab ?e (metadata_store initializing_session) 1 ''B''))"
    using initializing_new_entity [of 0]
      no_readiness_check [where c = collab and s = initializing_session and row_id = 0
        and column_index = 1 and new_value = "''B''" and e = ?e]
    by blast
  also have "\<dots> = (?s1, Inr (EditCellResponse (EditCell ''B'' True) True))"
    by (simp add: initializing_set_cell_value empty)
  finally have first: "update_cell collab initializing_session 0 1 ''B'' =
      (?s1, Inr (EditCellResponse (EditCell ''B'' True) True))" .
  have present: "map_of (session_cache ?s1) 0 = Some ?e1"
    by simp
  have store: "metadata_store ?s1 = metadata_store initializing_session"
    by simp
  have "update_cell collab ?s1 0 0 ''9'' =
      (?s1\<lparr>session_cache :=
           AList.update 0 (fst (set_cell_value collab ?e1 (metadata_store ?s1) 0 ''9''))
             (session_cache ?s1)\<rparr>,
       snd (set_cell_value collab ?e1 (metadata_store ?s1) 0 ''9''))"
    using present
      no_readiness_check [where c = collab and s = ?s1 and row_id = 0
        and column_index = 0 and new_value = "''9''" and e = ?e1]
    by blast
  also have "\<dots> =
      (initializing_session\<lparr>session_cache :=
         [(0, \<lparr>row_update_id = 0, row_update_result_set = None,
                row_update_metadata = Some 0, cell_updates = [(1, ''B''), (0, ''9'')]\<rparr>)]\<rparr>,
       Inr (EditCellResponse (EditCell ''9'' True) True))"
    by (simp add: store initializing_set_cell_value)
  finally have second: "update_cell collab ?s1 0 0 ''9'' =
      (initializing_session\<lparr>session_cache :=
         [(0, \<lparr>row_update_id = 0, row_update_result_set = None,
                row_update_metadata = Some 0, cell_updates = [(1, ''B''), (0, ''9'')]\<rparr>)]\<rparr>,
       Inr (EditCellResponse (EditCell ''9'' True) True))" .
  have raises: "update_cell collab_reading initializing_session 0 1 ''B'' =
      (initializing_session, Inl AttributeError)"
    using reading_constructor_raises [of 0]
      no_readiness_check [where c = collab_reading and s = initializing_session and row_id = 0
        and column_index = 1 and new_value = "''B''" and err = AttributeError]
    by blast
  let ?unready = "ready_session\<lparr>is_initialized := False\<rparr>"
  have held: "result_set ?unready = Some rows_t"
    by (simp add: ready_session_def)
  have rc: "row_count rows_t = 3"
    by (simp add: row_count_def rows_t_def)
  have past: "get_rows collab ?unready ''uri'' 3 5 = Inr []"
    using held rc
      no_readiness_check [where c = collab and s = ?unready and rs = rows_t
        and owner_uri = "''uri''" and start_index = 3 and end_index = 5]
    by simp
  have "get_rows collab ?unready ''uri'' 0 3 =
      get_rows_loop collab (metadata_store ?unready) (session_cache ?unready) 0
        (from_result_set collab rows_t 0 3) 0 (from_result_set collab rows_t 0 3)"
    using held rc
      no_readiness_check [where c = collab and s = ?unready and rs = rows_t
        and owner_uri = "''uri''" and start_index = 0 and end_index = 3]
    by simp
  also have "\<dots> =
      Inr [EditRow 0 [EditCell ''1'' False, EditCell ''a'' False],
           EditRow 1 [EditCell ''2'' False, EditCell ''b'' False],
           EditRow 2 [EditCell ''3'' False, EditCell ''c'' False]]"
    by (simp add: ready_session_def rows_t_def collab_def subset_from_result_set_def
          slice_bound_def Let_def cell_def)
  finally have window: "get_rows collab ?unready ''uri'' 0 3 =
      Inr [EditRow 0 [EditCell ''1'' False, EditCell ''a'' False],
           EditRow 1 [EditCell ''2'' False, EditCell ''b'' False],
           EditRow 2 [EditCell ''3'' False, EditCell ''c'' False]]" .
  show ?thesis
    by (intro conjI) (fact flag rows first second raises past window)+
qed

text \<open>
  Claim C10. \<^verbatim>\<open>update_cell\<close> compares the row identifier with nothing. For every integer
  \<open>row_id\<close>: when the cache has no entry for it and the \<^verbatim>\<open>RowUpdate\<close> constructor returns
  an entity, the entity is appended to the cache under \<open>row_id\<close> and \<^verbatim>\<open>set_cell_value\<close> is
  called on it; when the cache has an entry, \<^verbatim>\<open>set_cell_value\<close> is called on that entry.
  The result is the one of \<^verbatim>\<open>set_cell_value\<close>.
\<close>

theorem update_cell_any_row_id:
  "(map_of (session_cache s) row_id = None \<and>
    new_RowUpdate c row_id (result_set s) (table_metadata s) (metadata_store s) = Inr e \<longrightarrow>
      update_cell c s row_id column_index new_value =
        (s\<lparr>session_cache :=
             session_cache s @
             [(row_id, fst (set_cell_value c e (metadata_store s) column_index new_value))]\<rparr>,
         snd (set_cell_value c e (metadata_store s) column_index new_value))) \<and>
   (map_of (session_cache s) row_id = Some e \<longrightarrow>
      update_cell c s row_id column_index new_value =
        (s\<lparr>session_cache :=
             AList.update row_id
               (fst (set_cell_value c e (metadata_store s) column_index new_value))
               (session_cache s)\<rparr>,
         snd (set_cell_value c e (metadata_store s) column_index new_value)))"
  by (simp add: update_cell_absent update_cell_present)

theorem update_cell_any_row_id_witness:
  "row_count rows_t = 3 \<and>
   cache_keys (fst (update_cell collab ready_session (- 1) 1 ''B'')) = [- 1] \<and>
   cache_keys (fst (update_cell collab ready_session 7 1 ''B'')) = [7] \<and>
   snd (update_cell collab ready_session 7 1 ''B'') =
     Inr (EditCellResponse (EditCell ''B'' True) True) \<and>
   update_cell collab (fst (update_cell collab ready_session 7 1 ''B'')) 7 0 ''9'' =
     (ready_session\<lparr>session_cache :=
        [(7, \<lparr>row_update_id = 7, row_update_result_set = result_set ready_session,
              row_update_metadata = table_metadata ready_session,
              cell_updates = [(1, ''B''), (0, ''9'')]\<rparr>)]\<rparr>,
      Inr (EditCellResponse (EditCell ''9'' True) True))"
proof -
  have rc: "row_count rows_t = 3"
    by (simp add: row_count_def rows_t_def)
  have empty: "session_cache ready_session = []"
    by (simp add: ready_session_def)
  have new: "update_cell collab ready_session row_id 1 ''B'' =
      (ready_session\<lparr>session_cache :=
         [(row_id, \<lparr>row_update_id = row_id, row_update_result_set = result_set ready_session,
                    row_update_metadata = table_metadata ready_session,
                    cell_updates = [(1, ''B'')]\<rparr>)]\<rparr>,
       Inr (EditCellResponse (EditCell ''B'' True) True))" for row_id
  proof -
    let ?e = "\<lparr>row_update_id = row_id, row_update_result_set = result_set ready_session,
               row_update_metadata = table_metadata ready_session, cell_updates = []\<rparr>"
    have "update_cell collab ready_session row_id 1 ''B'' =
        (ready_session\<lparr>session_cache :=
           session_cache ready_session @
           [(row_id, fst (set_cell_value collab ?e (metadata_store ready_session) 1 ''B''))]\<rparr>,
         snd (set_cell_value collab ?e (metadata_store ready_session) 1 ''B''))"
      using ready_new_entity [of row_id]
        update_cell_any_row_id [where c = collab and s = ready_session and row_id = row_id
          and column_index = 1 and new_value = "''B''" and e = ?e]
      by blast
    also have "\<dots> =
        (ready_session\<lparr>session_cache :=
           [(row_id, \<lparr>row_update_id = row_id, row_update_result_set = result_set ready_session,
                      row_update_metadata = table_metadata ready_session,
                      cell_updates = [(1, ''B'')]\<rparr>)]\<rparr>,
         Inr (EditCellResponse (EditCell ''B'' True) True))"
      by (simp add: ready_set_cell_value empty)
    finally show ?thesis .
  qed
  let ?e7 = "\<lparr>row_update_id = 7, row_update_result_set = result_set ready_session,
              row_update_metadata = table_metadata ready_session,
              cell_updates = [(1, ''B'')]\<rparr>"
  let ?s7 = "ready_session\<lparr>session_cache := [(7, ?e7)]\<rparr>"
  have s7: "fst (update_cell collab ready_session 7 1 ''B'') = ?s7"
    by (simp add: new)
  have present: "map_of (session_cache ?s7) 7 = Some ?e7"
    by simp
  have store: "metadata_store ?s7 = metadata_store ready_session"
    by simp
  have "update_cell collab ?s7 7 0 ''9'' =
      (?s7\<lparr>session_cache :=
           AList.update 7 (fst (set_cell_value collab ?e7 (metadata_store ?s7) 0 ''9''))
             (session_cache ?s7)\<rparr>,
       snd (set_cell_value collab ?e7 (metadata_store ?s7) 0 ''9''))"
    using present
      update_cell_any_row_id [where c = collab and s = ?s7 and row_id = 7
        and column_index = 0 and new_value = "''9''" and e = ?e7]
    by blast
  also have "\<dots> =
      (ready_session\<lparr>session_cache :=
         [(7, \<lparr>row_update_id = 7, row_update_result_set = result_set ready_session,
               row_update_metadata = table_metadata ready_session,
               cell_updates = [(1, ''B''), (0, ''9'')]\<rparr>)]\<rparr>,
       Inr (EditCellResponse (EditCell ''9'' True) True))"
    by (simp add: store ready_set_cell_value)
  finally have reuse: "update_cell collab (fst (update_cell collab ready_session 7 1 ''B''))
      7 0 ''9'' =
      (ready_session\<lparr>session_cache :=
         [(7, \<lparr>row_update_id = 7, row_update_result_set = result_set ready_session,
               row_update_metadata = table_metadata ready_session,
               cell_updates = [(1, ''B''), (0, ''9'')]\<rparr>)]\<rparr>,
       Inr (EditCellResponse (EditCell ''9'' True) True))"
    unfolding s7 .
  have keys_minus: "cache_keys (fst (update_cell collab ready_session (- 1) 1 ''B'')) = [- 1]"
    by (simp add: new cache_keys_def)
  have keys_seven: "cache_keys (fst (update_cell collab ready_session 7 1 ''B'')) = [7]"
    by (simp add: new cache_keys_def)
  have result_seven: "snd (update_cell collab ready_session 7 1 ''B'') =
      Inr (EditCellResponse (EditCell ''B'' True) True)"
    by (simp add: new)
  show ?thesis
    by (intro conjI) (fact rc keys_minus keys_seven result_seven reuse)+
qed

section \<open>Row retrieval\<close>

text \<open>
  Claim C9. On a session that holds a result set, \<^verbatim>\<open>get_rows\<close> with a start index at or
  beyond the row count returns the empty list and raises nothing.
\<close>

theorem get_rows_past_the_end:
  "result_set s = Some rs \<Longrightarrow> row_count rs \<le> start_index \<Longrightarrow>
   get_rows c s owner_uri start_index end_index = Inr []"
  by (simp add: get_rows_def)

theorem get_rows_past_the_end_witness:
  "get_rows collab ready_session ''uri'' 3 5 = Inr []"
proof -
  have rs: "result_set ready_session = Some rows_t"
    by (simp add: ready_session_def)
  have "row_count rows_t \<le> 3"
    by (simp add: row_count_def rows_t_def)
  then show ?thesis
    by (rule get_rows_past_the_end [OF rs])
qed

lemma upt_Suc_shift: "[0..<Suc n] = 0 # map Suc [0..<n]"
  by (simp add: upt_conv_Cons map_Suc_upt del: upt_Suc)

lemma get_rows_loop_rows:
  "get_rows_loop c store cache_entries start_index (first # others) index rest =
     Inr (map2 (\<lambda>i row. render c store cache_entries first (start_index + index + int i) row)
               [0..<length rest] rest)"
proof (induction rest arbitrary: index)
  case Nil
  then show ?case by simp
next
  case (Cons row rest)
  have step: "get_rows_loop c store cache_entries start_index (first # others) index
        (row # rest) =
      map_sum id ((#) (render c store cache_entries first (start_index + index) row))
        (get_rows_loop c store cache_entries start_index (first # others) (index + 1) rest)"
    by (simp add: render_def Let_def split: option.split)
  have shift: "map2 (\<lambda>i row. render c store cache_entries first (start_index + index + int i) row)
                 [0..<length (row # rest)] (row # rest) =
      render c store cache_entries first (start_index + index) row #
      map2 (\<lambda>i row. render c store cache_entries first (start_index + (index + 1) + int i) row)
        [0..<length rest] rest"
    by (simp add: upt_Suc_shift zip_map1 case_prod_unfold ac_simps del: upt_Suc)
  show ?case
    unfolding step shift Cons.IH [of "index + 1"] by simp
qed

lemma get_rows_window:
  "result_set s = Some rs \<Longrightarrow> start_index < row_count rs \<Longrightarrow>
   from_result_set c rs start_index end_index = first # others \<Longrightarrow>
   get_rows c s owner_uri start_index end_index =
     Inr (map2 (\<lambda>i row. render c (metadata_store s) (session_cache s) first
                           (start_index + int i) row)
               [0..<length (first # others)] (first # others))"
  using get_rows_loop_rows [of c "metadata_store s" "session_cache s" start_index first others 0
      "first # others"]
  by (simp del: upt_Suc get_rows_loop.simps add: get_rows_def)

text \<open>
  Claim C3. The claim asks that a row with a pending edit be rendered from its own original
  row. With the rows (1, a), (2, b), (3, c) and the edit of column 1 of row 1 to B,
  \<^verbatim>\<open>get_rows(0, 3)\<close> renders row 1 from the first row of the window: its first cell
  shows 1, where the original row has 2.
\<close>

theorem get_rows_renders_edit_from_first_row:
  "get_rows collab (fst (update_cell collab ready_session 1 1 ''B'')) ''uri'' 0 3 =
     Inr [EditRow 0 [EditCell ''1'' False, EditCell ''a'' False],
          EditRow 1 [EditCell ''1'' False, EditCell ''B'' True],
          EditRow 2 [EditCell ''3'' False, EditCell ''c'' False]]"
proof -
  have edited: "fst (update_cell collab ready_session 1 1 ''B'') =
      ready_session\<lparr>session_cache :=
        [(1, \<lparr>row_update_id = 1, row_update_result_set = result_set ready_session,
               row_update_metadata = table_metadata ready_session,
               cell_updates = [(1, ''B'')]\<rparr>)]\<rparr>"
    by (simp add: ready_update_1)
  show ?thesis
    unfolding edited
    by (simp add: get_rows_def ready_session_def row_count_def rows_t_def
          collab_def subset_from_result_set_def slice_bound_def Let_def
          RowUpdate_get_edit_row_def cell_def)
qed

end
